theory Spec2Isabelle
  imports Complex_Main "HOL-Library.Word"
begin

unbundle bit_operations_syntax

section \<open>JavaScript data\<close>

text \<open>
  Plain JavaScript data, as the engine receives it from storage and hands it to its
  collaborators: an object is the list of its properties in enumeration order (the order
  \<^verbatim>\<open>Object.keys\<close> and \<^verbatim>\<open>JSON.stringify\<close> follow), with distinct keys. Strings are
  lists of bytes (UTF-8). Numbers are integers.
\<close>

datatype json =
    JNull
  | JBool bool
  | JNum int
  | JStr string
  | JArr "json list"
  | JObj "(string \<times> json) list"

text \<open>\<^verbatim>\<open>obj[key]\<close>: the property, or undefined (\<open>None\<close>).\<close>

fun field :: "string \<Rightarrow> json \<Rightarrow> json option" where
  "field k (JObj kvs) = map_of kvs k"
| "field k v = None"

text \<open>JavaScript exceptions, as values.\<close>

datatype js_error = Error string | TypeError string

text \<open>\<^verbatim>\<open>_.uniq\<close> and \<^verbatim>\<open>_.uniqBy\<close> keep the first occurrence of each key.\<close>

fun uniqBy_from :: "'b list \<Rightarrow> ('a \<Rightarrow> 'b) \<Rightarrow> 'a list \<Rightarrow> 'a list" where
  "uniqBy_from seen f [] = []"
| "uniqBy_from seen f (x # xs) =
     (if f x \<in> set seen then uniqBy_from seen f xs else x # uniqBy_from (f x # seen) f xs)"

definition uniqBy :: "('a \<Rightarrow> 'b) \<Rightarrow> 'a list \<Rightarrow> 'a list" where
  "uniqBy f xs = uniqBy_from [] f xs"

definition uniq :: "'a list \<Rightarrow> 'a list" where
  "uniq xs = uniqBy (\<lambda>x. x) xs"

text \<open>\<^verbatim>\<open>Promise.all\<close> over settled results: the values, or the first rejection.\<close>

fun promise_all :: "(js_error + 'a) list \<Rightarrow> js_error + 'a list" where
  "promise_all [] = Inr []"
| "promise_all (Inl e # rs) = Inl e"
| "promise_all (Inr x # rs) = (case promise_all rs of Inl e \<Rightarrow> Inl e | Inr xs \<Rightarrow> Inr (x # xs))"

section \<open>JSON.stringify\<close>

definition hex_digit :: "nat \<Rightarrow> char" where
  "hex_digit d = ''0123456789abcdef'' ! d"

definition hex_byte :: "nat \<Rightarrow> string" where
  "hex_byte b = [hex_digit (b div 16), hex_digit (b mod 16)]"

text \<open>Decimal rendering of an integer, as number-to-string conversion gives it.\<close>

fun string_of_nat :: "nat \<Rightarrow> string" where
  "string_of_nat n =
     (if n < 10 then [''0123456789'' ! n]
      else string_of_nat (n div 10) @ [''0123456789'' ! (n mod 10)])"

declare string_of_nat.simps [simp del]

definition string_of_int :: "int \<Rightarrow> string" where
  "string_of_int i =
     (if i < 0 then CHR ''-'' # string_of_nat (nat (- i)) else string_of_nat (nat i))"

text \<open>
  The escapes of \<^verbatim>\<open>JSON.stringify\<close>: the quote (0x22), the backslash (0x5C), the short
  escapes of backspace, tab, newline, form feed and carriage return, and
  \<^verbatim>\<open>\u00XX\<close> for the other control characters.
\<close>

definition escape_char :: "char \<Rightarrow> string" where
  "escape_char c =
     (let n = (of_char c :: nat) in
      if n = 34 then [CHR 0x5C, CHR 0x22]
      else if n = 92 then [CHR 0x5C, CHR 0x5C]
      else if n = 8 then [CHR 0x5C, CHR ''b'']
      else if n = 9 then [CHR 0x5C, CHR ''t'']
      else if n = 10 then [CHR 0x5C, CHR ''n'']
      else if n = 12 then [CHR 0x5C, CHR ''f'']
      else if n = 13 then [CHR 0x5C, CHR ''r'']
      else if n < 32 then [CHR 0x5C, CHR ''u'', CHR ''0'', CHR ''0''] @ hex_byte n
      else [c])"

definition quote :: "string \<Rightarrow> string" where
  "quote s = CHR 0x22 # concat (map escape_char s) @ [CHR 0x22]"

fun commas :: "string list \<Rightarrow> string" where
  "commas [] = []"
| "commas [x] = x"
| "commas (x # y # ys) = x @ CHR '','' # commas (y # ys)"

fun stringify :: "json \<Rightarrow> string" where
  "stringify JNull = ''null''"
| "stringify (JBool b) = (if b then ''true'' else ''false'')"
| "stringify (JNum i) = string_of_int i"
| "stringify (JStr s) = quote s"
| "stringify (JArr xs) = CHR ''['' # commas (map stringify xs) @ [CHR '']'']"
| "stringify (JObj kvs) =
     CHR ''{'' # commas (map (\<lambda>kv. quote (fst kv) @ CHR '':'' # stringify (snd kv)) kvs) @ [CHR ''}'']"

section \<open>MD5 (RFC 1321), the digest \<^verbatim>\<open>crypto.createHash('md5')\<close> computes\<close>

type_synonym w32 = "32 word"

type_synonym md5_state = "w32 \<times> w32 \<times> w32 \<times> w32"

definition rotl32 :: "nat \<Rightarrow> w32 \<Rightarrow> w32" where
  "rotl32 s x = (push_bit s x) OR (drop_bit (32 - s) x)"

definition md5_K :: "w32 list" where
  "md5_K =
     [0xd76aa478, 0xe8c7b756, 0x242070db, 0xc1bdceee,
      0xf57c0faf, 0x4787c62a, 0xa8304613, 0xfd469501,
      0x698098d8, 0x8b44f7af, 0xffff5bb1, 0x895cd7be,
      0x6b901122, 0xfd987193, 0xa679438e, 0x49b40821,
      0xf61e2562, 0xc040b340, 0x265e5a51, 0xe9b6c7aa,
      0xd62f105d, 0x02441453, 0xd8a1e681, 0xe7d3fbc8,
      0x21e1cde6, 0xc33707d6, 0xf4d50d87, 0x455a14ed,
      0xa9e3e905, 0xfcefa3f8, 0x676f02d9, 0x8d2a4c8a,
      0xfffa3942, 0x8771f681, 0x6d9d6122, 0xfde5380c,
      0xa4beea44, 0x4bdecfa9, 0xf6bb4b60, 0xbebfbc70,
      0x289b7ec6, 0xeaa127fa, 0xd4ef3085, 0x04881d05,
      0xd9d4d039, 0xe6db99e5, 0x1fa27cf8, 0xc4ac5665,
      0xf4292244, 0x432aff97, 0xab9423a7, 0xfc93a039,
      0x655b59c3, 0x8f0ccc92, 0xffeff47d, 0x85845dd1,
      0x6fa87e4f, 0xfe2ce6e0, 0xa3014314, 0x4e0811a1,
      0xf7537e82, 0xbd3af235, 0x2ad7d2bb, 0xeb86d391]"

definition md5_s :: "nat list" where
  "md5_s =
     [7, 12, 17, 22, 7, 12, 17, 22, 7, 12, 17, 22, 7, 12, 17, 22,
      5, 9, 14, 20, 5, 9, 14, 20, 5, 9, 14, 20, 5, 9, 14, 20,
      4, 11, 16, 23, 4, 11, 16, 23, 4, 11, 16, 23, 4, 11, 16, 23,
      6, 10, 15, 21, 6, 10, 15, 21, 6, 10, 15, 21, 6, 10, 15, 21]"

definition md5_round :: "w32 list \<Rightarrow> md5_state \<Rightarrow> nat \<Rightarrow> md5_state" where
  "md5_round M st i =
     (case st of (A, B, C, D) \<Rightarrow>
        let F = (if i < 16 then (B AND C) OR (NOT B AND D)
                 else if i < 32 then (D AND B) OR (NOT D AND C)
                 else if i < 48 then B XOR C XOR D
                 else C XOR (B OR NOT D));
            g = (if i < 16 then i
                 else if i < 32 then (5 * i + 1) mod 16
                 else if i < 48 then (3 * i + 5) mod 16
                 else (7 * i) mod 16);
            F' = F + A + md5_K ! i + M ! g
        in (D, B + rotl32 (md5_s ! i) F', B, C))"

definition md5_block :: "md5_state \<Rightarrow> w32 list \<Rightarrow> md5_state" where
  "md5_block st M =
     (case st of (a0, b0, c0, d0) \<Rightarrow>
        case foldl (md5_round M) st [0..<64] of (A, B, C, D) \<Rightarrow>
          (a0 + A, b0 + B, c0 + C, d0 + D))"

fun le_bytes :: "nat \<Rightarrow> nat \<Rightarrow> nat list" where
  "le_bytes n v = (if n = 0 then [] else (v mod 256) # le_bytes (n - 1) (v div 256))"

declare le_bytes.simps [simp del]

text \<open>Padding: the bit 1, zeros up to 56 modulo 64 bytes, the length in bits on 8 bytes.\<close>

definition md5_pad :: "nat list \<Rightarrow> nat list" where
  "md5_pad bytes =
     (let n = length bytes
      in bytes @ 128 # replicate ((119 - n mod 64) mod 64) 0 @ le_bytes 8 ((8 * n) mod 2 ^ 64))"

fun md5_words :: "nat list \<Rightarrow> w32 list" where
  "md5_words (b0 # b1 # b2 # b3 # bs) =
     word_of_nat (b0 + 256 * b1 + 65536 * b2 + 16777216 * b3) # md5_words bs"
| "md5_words bs = []"

fun md5_blocks :: "md5_state \<Rightarrow> w32 list \<Rightarrow> md5_state" where
  "md5_blocks st ws =
     (if length ws < 16 then st else md5_blocks (md5_block st (take 16 ws)) (drop 16 ws))"

declare md5_blocks.simps [simp del]

definition hex_le32 :: "w32 \<Rightarrow> string" where
  "hex_le32 w = concat (map hex_byte (le_bytes 4 (unat w)))"

definition md5_hex :: "string \<Rightarrow> string" where
  "md5_hex s =
     (case md5_blocks (0x67452301, 0xefcdab89, 0x98badcfe, 0x10325476)
             (md5_words (md5_pad (map of_char s))) of
        (a, b, c, d) \<Rightarrow> hex_le32 a @ hex_le32 b @ hex_le32 c @ hex_le32 d)"

section \<open>The model hash (engine.ts, computeModelHash)\<close>

text \<open>
  \<^verbatim>\<open>crypto.createHash('md5').update(JSON.stringify(intents)).digest('hex')\<close>, on the
  array of intent definitions.
\<close>

definition computeModelHash :: "json list \<Rightarrow> string" where
  "computeModelHash intents = md5_hex (stringify (JArr intents))"

section \<open>Model artifacts and the Model Store\<close>

text \<open>
  \<^verbatim>\<open>Model = { meta: { context, created_on, hash, type, scope }, model }\<close>, as
  \<^verbatim>\<open>_makeModel\<close> builds it; the payload (a Buffer) is a byte string.
\<close>

record Model =
  meta_context :: string
  meta_created_on :: int
  meta_hash :: string
  meta_type :: string
  meta_scope :: string
  model :: string

text \<open>
  Modelled from the spec: the Storage class (\<^verbatim>\<open>./storage\<close>) is not among the sources. The
  spec gives the Model Store as \<^verbatim>\<open>modelExists(hash, lang) -> bool\<close>,
  \<^verbatim>\<open>getModelsFromHash(hash, lang) -> artifacts[]\<close> and
  \<^verbatim>\<open>persistModels(artifacts, lang) -> void\<close>, over artifacts keyed by hash and language.
  The store is the list of the artifacts persisted for each language, oldest first.
\<close>

type_synonym model_store = "string \<Rightarrow> Model list"

definition getModelsFromHash :: "model_store \<Rightarrow> string \<Rightarrow> string \<Rightarrow> Model list" where
  "getModelsFromHash st modelHash lang = filter (\<lambda>m. meta_hash m = modelHash) (st lang)"

definition modelExists :: "model_store \<Rightarrow> string \<Rightarrow> string \<Rightarrow> bool" where
  "modelExists st modelHash lang = (getModelsFromHash st modelHash lang \<noteq> [])"

definition persistModels :: "model_store \<Rightarrow> Model list \<Rightarrow> string \<Rightarrow> model_store" where
  "persistModels st models lang = st (lang := st lang @ models)"

section \<open>The engine's configuration, collaborators and state (engine.ts)\<close>

text \<open>The constructor's arguments that the code below reads, and the confidence threshold.\<close>

record config =
  languages :: "string list"
  defaultLanguage :: string
  confidenceTreshold :: real

text \<open>
  The collaborators of a sync cycle, as the results they give when the cycle runs: the
  intent source, the training-sequence generator, the intent classifier and the slot
  tagger of each language, and the clock of \<^verbatim>\<open>_makeModel\<close>. A rejected promise or a
  thrown exception is an \<open>Inl\<close> (or a \<open>Some\<close> for a call without a result). The constants
  \<^verbatim>\<open>MODEL_TYPES\<close> (\<^verbatim>\<open>./typings\<close>, not among the sources) are parameters.
\<close>

record sync_env =
  getIntents :: "js_error + json list"
  MODEL_TYPES_INTENT :: "string list"
  MODEL_TYPES_SLOT_LANG :: string
  MODEL_TYPES_SLOT_CRF :: string
  generateTrainingSequence :: "json \<Rightarrow> string \<Rightarrow> json option \<Rightarrow> json option \<Rightarrow> js_error + json"
  classifier_train :: "string \<Rightarrow> json list \<Rightarrow> string \<Rightarrow> js_error + Model list"
  classifier_load :: "string \<Rightarrow> Model list \<Rightarrow> js_error option"
  slot_train :: "string \<Rightarrow> json list \<Rightarrow> js_error + (string option \<times> string option)"
  slot_load :: "string \<Rightarrow> json list \<Rightarrow> string \<Rightarrow> string \<Rightarrow> js_error option"
  now :: int

text \<open>
  What loading leaves in the engine, per language: the training set of the exact matcher
  (\<^verbatim>\<open>new ExactMatcher(trainingSet)\<close>), the artifacts the classifier loaded, the training
  set and payloads the slot extractor loaded; and the Model Store.
\<close>

record models =
  exactIntentMatchers :: "string \<rightharpoonup> json list"
  intentModels :: "string \<rightharpoonup> Model list"
  slotModels :: "string \<rightharpoonup> json list \<times> string \<times> string"
  store :: model_store

definition MIN_NB_UTTERANCES :: nat where
  "MIN_NB_UTTERANCES = 3"

text \<open>
  \<^verbatim>\<open>Object.keys(intent.utterances)\<close> and \<^verbatim>\<open>intent.utterances[lang] || []\<close>, for an intent
  definition of the declared type (\<^verbatim>\<open>utterances: { [lang]: string[] }\<close>).
\<close>

definition utteranceLangs :: "json \<Rightarrow> string list" where
  "utteranceLangs intent =
     (case field ''utterances'' intent of Some (JObj kvs) \<Rightarrow> map fst kvs | _ \<Rightarrow> [])"

definition utterancesOf :: "json \<Rightarrow> string \<Rightarrow> json list" where
  "utterancesOf intent lang =
     (case field ''utterances'' intent of
        Some us \<Rightarrow> (case field lang us of Some (JArr xs) \<Rightarrow> xs | _ \<Rightarrow> [])
      | None \<Rightarrow> [])"

definition getTrainingLanguages :: "json list \<Rightarrow> string list" where
  "getTrainingLanguages intents =
     uniq (concat (map (\<lambda>intent.
        filter (\<lambda>lang. MIN_NB_UTTERANCES \<le> length (utterancesOf intent lang)) (utteranceLangs intent))
        intents))"

definition generateTrainingSequenceFromIntent :: "sync_env \<Rightarrow> string \<Rightarrow> json \<Rightarrow> js_error + json list" where
  "generateTrainingSequenceFromIntent svc lang intent =
     promise_all (map (\<lambda>utterance.
        generateTrainingSequence svc utterance lang (field ''slots'' intent) (field ''name'' intent))
        (utterancesOf intent lang))"

definition getTrainingSets :: "sync_env \<Rightarrow> json list \<Rightarrow> string \<Rightarrow> js_error + json list" where
  "getTrainingSets svc intentDefs lang =
     (case promise_all (map (generateTrainingSequenceFromIntent svc lang) intentDefs) of
        Inl e \<Rightarrow> Inl e
      | Inr seqs \<Rightarrow> Inr (concat seqs))"

text \<open>\<^verbatim>\<open>_.orderBy(\<dots>, 'desc')\<close>: a stable sort, newest first.\<close>

definition orderBy_desc :: "('a \<Rightarrow> int) \<Rightarrow> 'a list \<Rightarrow> 'a list" where
  "orderBy_desc f xs = sort_key (\<lambda>x. - f x) xs"

section \<open>Loading and training (engine.ts, loadModels and trainModels)\<close>

text \<open>
  One iteration of the loop of \<^verbatim>\<open>loadModels\<close>. An exception leaves the engine as the
  iteration had changed it so far. The training languages come from the intent
  definitions, so \<^verbatim>\<open>this.intentClassifiers[lang]\<close> is undefined for a language that is
  not configured, and calling \<^verbatim>\<open>load\<close> on it raises a TypeError.
\<close>

definition loadModels_lang ::
  "config \<Rightarrow> sync_env \<Rightarrow> json list \<Rightarrow> string \<Rightarrow> string \<Rightarrow> models \<Rightarrow> models \<times> js_error option" where
  "loadModels_lang cfg svc intents modelHash lang m =
     (let ms = getModelsFromHash (store m) modelHash lang;
          intentMs =
            uniqBy (\<lambda>x. meta_hash x @ '' '' @ meta_type x @ '' '' @ meta_context x)
              (orderBy_desc meta_created_on
                (filter (\<lambda>x. meta_type x \<in> set (MODEL_TYPES_INTENT svc)) ms));
          skipgramModel = find (\<lambda>x. meta_type x = MODEL_TYPES_SLOT_LANG svc) ms;
          crfModel = find (\<lambda>x. meta_type x = MODEL_TYPES_SLOT_CRF svc) ms
      in case skipgramModel of
           None \<Rightarrow> (m, Some (Error ''Could not find skipgram model for slot tagging''))
         | Some sg \<Rightarrow>
        (case crfModel of
           None \<Rightarrow> (m, Some (Error ''Could not find CRF model for slot tagging''))
         | Some crf \<Rightarrow>
        if intentMs = [] then (m, Some (Error ''Could not find intent models''))
        else
        (case getTrainingSets svc intents lang of
           Inl e \<Rightarrow> (m, Some e)
         | Inr trainingSet \<Rightarrow>
        (let m1 = m \<lparr> exactIntentMatchers := (exactIntentMatchers m) (lang \<mapsto> trainingSet) \<rparr>
         in if lang \<notin> set (languages cfg)
            then (m1, Some (TypeError ''Cannot read property load of undefined''))
            else
            (case classifier_load svc lang intentMs of
               Some e \<Rightarrow> (m1, Some e)
             | None \<Rightarrow>
            (let m2 = m1 \<lparr> intentModels := (intentModels m1) (lang \<mapsto> intentMs) \<rparr>
             in case slot_load svc lang trainingSet (model sg) (model crf) of
                  Some e \<Rightarrow> (m2, Some e)
                | None \<Rightarrow>
                    (m2 \<lparr> slotModels := (slotModels m2) (lang \<mapsto> (trainingSet, model sg, model crf)) \<rparr>,
                     None)))))))"

fun loadModels_loop ::
  "config \<Rightarrow> sync_env \<Rightarrow> json list \<Rightarrow> string \<Rightarrow> string list \<Rightarrow> models \<Rightarrow> models \<times> js_error option" where
  "loadModels_loop cfg svc intents modelHash [] m = (m, None)"
| "loadModels_loop cfg svc intents modelHash (lang # langs) m =
     (case loadModels_lang cfg svc intents modelHash lang m of
        (m', Some e) \<Rightarrow> (m', Some e)
      | (m', None) \<Rightarrow> loadModels_loop cfg svc intents modelHash langs m')"

definition loadModels ::
  "config \<Rightarrow> sync_env \<Rightarrow> json list \<Rightarrow> string \<Rightarrow> models \<Rightarrow> models \<times> js_error option" where
  "loadModels cfg svc intents modelHash m =
     loadModels_loop cfg svc intents modelHash (getTrainingLanguages intents) m"

definition makeModel :: "sync_env \<Rightarrow> string \<Rightarrow> string \<Rightarrow> string \<Rightarrow> string \<Rightarrow> Model" where
  "makeModel svc ctx modelHash payload ty =
     \<lparr> meta_context = ctx, meta_created_on = now svc, meta_hash = modelHash, meta_type = ty,
       meta_scope = ''bot'', model = payload \<rparr>"

text \<open>
  \<^verbatim>\<open>_trainSlotTagger\<close>: any failure is rethrown as \<^verbatim>\<open>Error('Unable to train model')\<close>;
  \<^verbatim>\<open>language && crf\<close> holds when the tagger returned both payloads.
\<close>

definition trainSlotTagger :: "sync_env \<Rightarrow> json list \<Rightarrow> string \<Rightarrow> string \<Rightarrow> js_error + Model list" where
  "trainSlotTagger svc intentDefs modelHash lang =
     (case getTrainingSets svc intentDefs lang of
        Inl e \<Rightarrow> Inl (Error ''Unable to train model'')
      | Inr trainingSet \<Rightarrow>
       (case slot_train svc lang trainingSet of
          Inl e \<Rightarrow> Inl (Error ''Unable to train model'')
        | Inr (Some language, Some crf) \<Rightarrow>
            Inr [makeModel svc ''global'' modelHash language (MODEL_TYPES_SLOT_LANG svc),
                 makeModel svc ''global'' modelHash crf (MODEL_TYPES_SLOT_CRF svc)]
        | Inr _ \<Rightarrow> Inr []))"

text \<open>
  One iteration of the loop of \<^verbatim>\<open>trainModels\<close>: the \<^verbatim>\<open>try\<close> around it logs any error
  and goes on with the next language.
\<close>

definition trainModels_lang :: "sync_env \<Rightarrow> json list \<Rightarrow> string \<Rightarrow> string \<Rightarrow> models \<Rightarrow> models" where
  "trainModels_lang svc intentDefs modelHash lang m =
     (let trainableIntents =
            filter (\<lambda>i. MIN_NB_UTTERANCES \<le> length (utterancesOf i lang)) intentDefs
      in if trainableIntents = [] then m
         else
         (case classifier_train svc lang trainableIntents modelHash of
            Inl e \<Rightarrow> m
          | Inr ctx_intent_models \<Rightarrow>
           (case trainSlotTagger svc trainableIntents modelHash lang of
              Inl e \<Rightarrow> m
            | Inr slotTaggerModels \<Rightarrow>
                m \<lparr> store := persistModels (store m) (slotTaggerModels @ ctx_intent_models) lang \<rparr>)))"

definition trainModels :: "config \<Rightarrow> sync_env \<Rightarrow> json list \<Rightarrow> string \<Rightarrow> models \<Rightarrow> models" where
  "trainModels cfg svc intentDefs modelHash m =
     foldl (\<lambda>m' lang. trainModels_lang svc intentDefs modelHash lang m') m (languages cfg)"

section \<open>The sync cycle (engine.ts, trainOrLoad)\<close>

text \<open>
  A promise, as a value: \<^verbatim>\<open>this.languages.map(async lang => await
  this.storage.modelExists(modelHash, lang))\<close> is an array of promises, and
  \<^verbatim>\<open>.every(_.identity)\<close> tests the promise objects themselves. An object is truthy,
  whatever the promise resolves to.
\<close>

datatype 'a promise = Promise 'a

fun truthy :: "'a promise \<Rightarrow> bool" where
  "truthy (Promise v) = True"

text \<open>The calls of a cycle that the statements below speak about, in the order made.\<close>

datatype sync_call = GetIntents | LoadModels string | TrainModels string

text \<open>
  The \<^verbatim>\<open>try\<close> block of \<^verbatim>\<open>trainOrLoad\<close> after \<^verbatim>\<open>this._isSyncing = true\<close>: the engine's
  models and store as the block leaves them, the calls made, and the hash to record or
  the exception that reaches the \<^verbatim>\<open>catch\<close>.
\<close>

definition sync_body ::
  "config \<Rightarrow> sync_env \<Rightarrow> bool \<Rightarrow> models \<Rightarrow> models \<times> sync_call list \<times> (js_error + string)" where
  "sync_body cfg svc forceRetrain m =
     (case getIntents svc of
        Inl e \<Rightarrow> (m, [GetIntents], Inl e)
      | Inr intents \<Rightarrow>
       (let modelHash = computeModelHash intents;
            modelsExists =
              list_all truthy (map (\<lambda>lang. Promise (modelExists (store m) modelHash lang)) (languages cfg));
            (m1, calls1, loaded) =
              (if \<not> forceRetrain \<and> modelsExists
               then (case loadModels cfg svc intents modelHash m of
                       (m', None) \<Rightarrow> (m', [LoadModels modelHash], True)
                     | (m', Some e) \<Rightarrow> (m', [LoadModels modelHash], False))
               else (m, [], False))
        in if \<not> loaded
           then (let m2 = trainModels cfg svc intents modelHash m1
                 in case loadModels cfg svc intents modelHash m2 of
                      (m3, None) \<Rightarrow>
                        (m3, GetIntents # calls1 @ [TrainModels modelHash, LoadModels modelHash], Inr modelHash)
                    | (m3, Some e) \<Rightarrow>
                        (m3, GetIntents # calls1 @ [TrainModels modelHash, LoadModels modelHash], Inl e))
           else (m1, GetIntents # calls1, Inr modelHash)))"

text \<open>
  The engine: the flags and fields \<^verbatim>\<open>trainOrLoad\<close> reads and writes (an undefined flag
  is \<open>False\<close>, an undefined hash \<open>None\<close>), with the argument of the cycle in flight, the
  number of cycles started and the calls made so far kept for the statements below.
\<close>

record engine =
  isSyncing :: bool
  isSyncingTwice :: bool
  preloaded :: bool
  currentModelHash :: "string option"
  loaded :: models
  inflightForce :: bool
  syncCycles :: nat
  syncLog :: "sync_call list"

text \<open>
  What a call of \<^verbatim>\<open>trainOrLoad\<close> has given its caller: a value (\<open>None\<close> is undefined), or
  nothing yet.
\<close>

datatype answer = Returned "string option" | Pending

text \<open>
  A call of \<^verbatim>\<open>trainOrLoad(forceRetrain)\<close> up to its first \<^verbatim>\<open>await\<close>. JavaScript runs
  this much without interruption: either the guard returns, or the cycle is started and
  waits for the intents.
\<close>

definition invoke :: "bool \<Rightarrow> engine \<Rightarrow> engine \<times> answer" where
  "invoke forceRetrain e =
     (if isSyncing e then (e \<lparr> isSyncingTwice := True \<rparr>, Returned None)
      else (e \<lparr> isSyncing := True, inflightForce := forceRetrain, syncCycles := Suc (syncCycles e) \<rparr>,
            Pending))"

text \<open>
  How the cycle in flight ends: a hash for its caller, or the promise of the follow-up
  call that the \<^verbatim>\<open>finally\<close> block returns; \<open>Idle\<close> when no cycle is in flight.
\<close>

datatype settled = Resolved "string option" | Chained | Idle

text \<open>
  The rest of the cycle in flight, run to its end with the collaborators as they answer
  then: the \<^verbatim>\<open>try\<close> block, the \<^verbatim>\<open>catch\<close> (which logs), and the \<^verbatim>\<open>finally\<close> block,
  whose \<^verbatim>\<open>return this.trainOrLoad()\<close> starts the follow-up cycle at once.
\<close>

definition settle :: "config \<Rightarrow> sync_env \<Rightarrow> engine \<Rightarrow> engine \<times> settled" where
  "settle cfg svc e =
     (if \<not> isSyncing e then (e, Idle)
      else
      (case sync_body cfg svc (inflightForce e) (loaded e) of (m, calls, r) \<Rightarrow>
         let e1 = e \<lparr> loaded := m, syncLog := syncLog e @ calls \<rparr>;
             e2 = (case r of
                     Inr modelHash \<Rightarrow> e1 \<lparr> currentModelHash := Some modelHash, preloaded := True \<rparr>
                   | Inl err \<Rightarrow> e1);
             e3 = e2 \<lparr> isSyncing := False \<rparr>
         in if isSyncingTwice e3
            then (fst (invoke False (e3 \<lparr> isSyncingTwice := False \<rparr>)), Chained)
            else (e3, Resolved (currentModelHash e3))))"

text \<open>
  Calls and completions in the order they happen: a call of \<^verbatim>\<open>trainOrLoad\<close>, or the
  end of the cycle in flight.
\<close>

datatype event = Invoke bool | Settle sync_env

datatype outcome = Answer answer | Settled settled

fun step :: "config \<Rightarrow> engine \<Rightarrow> event \<Rightarrow> engine \<times> outcome" where
  "step cfg e (Invoke forceRetrain) = (case invoke forceRetrain e of (e', a) \<Rightarrow> (e', Answer a))"
| "step cfg e (Settle svc) = (case settle cfg svc e of (e', s) \<Rightarrow> (e', Settled s))"

fun run :: "config \<Rightarrow> engine \<Rightarrow> event list \<Rightarrow> engine \<times> outcome list" where
  "run cfg e [] = (e, [])"
| "run cfg e (ev # evs) =
     (case step cfg e ev of (e', out) \<Rightarrow>
        case run cfg e' evs of (e'', outs) \<Rightarrow> (e'', out # outs))"

text \<open>
  \<^verbatim>\<open>await this.trainOrLoad(forceRetrain)\<close> with no other call in between: the value the
  caller receives, which after a follow-up cycle is the follow-up's.
\<close>

function await_sync :: "config \<Rightarrow> sync_env \<Rightarrow> engine \<Rightarrow> engine \<times> string option" where
  "await_sync cfg svc e =
     (case settle cfg svc e of
        (e', Resolved v) \<Rightarrow> (e', v)
      | (e', Chained) \<Rightarrow> await_sync cfg svc e'
      | (e', Idle) \<Rightarrow> (e', currentModelHash e'))"
  by pat_completeness auto
termination
  by (relation "measure (\<lambda>(cfg, svc, e). if isSyncingTwice e then 1 else 0)")
     (auto simp: settle_def invoke_def Let_def split: prod.splits if_splits sum.splits)

declare await_sync.simps [simp del]

definition trainOrLoad :: "config \<Rightarrow> sync_env \<Rightarrow> bool \<Rightarrow> engine \<Rightarrow> engine \<times> string option" where
  "trainOrLoad cfg svc forceRetrain e =
     (case invoke forceRetrain e of
        (e', Returned v) \<Rightarrow> (e', v)
      | (e', Pending) \<Rightarrow> await_sync cfg svc e')"

section \<open>The extraction pipeline (engine.ts)\<close>

text \<open>
  An intent as the classifier and the exact matcher give it (\<^verbatim>\<open>name\<close>, \<^verbatim>\<open>context\<close>,
  \<^verbatim>\<open>confidence\<close>), with the \<^verbatim>\<open>matches\<close> function the engine attaches.
\<close>

record Intent =
  intent_name :: string
  intent_context :: string
  confidence :: real
  matches :: "(string \<Rightarrow> bool) option"

text \<open>
  Modelled from the spec: the declaration of \<^verbatim>\<open>NLUStructure\<close> (\<^verbatim>\<open>./typings\<close>) is not among
  the sources. The spec's ExtractionContext is the working record threaded through the
  stages; the fields are those the stages of engine.ts read and write. Entities, slots and
  intent definitions are plain data.
\<close>

record NLUStructure =
  rawText :: string
  lowerText :: string
  sanitizedText :: string
  detectedLanguage :: "string option"
  language :: string
  includedContexts :: "string list"
  tokens :: "string list"
  entities :: "json list"
  intents :: "Intent list"
  intent :: "Intent option"
  slots :: "json list"

text \<open>
  The collaborators of a pipeline run, as they answer during one attempt: the language
  identifier, the sanitizer, the lower-casing of the JavaScript runtime
  (\<^verbatim>\<open>String.prototype.toLowerCase\<close>, a Unicode case mapping that is not spelled out here),
  the tokenizer, the entity definitions and extractors, the
  exact matcher (a function of the training set it was built from), the classifier and the
  slot extractor (functions of what was loaded for the language), the intent source.
\<close>

record nlu_env =
  identify :: "string \<Rightarrow> js_error + string option"
  sanitize :: "string \<Rightarrow> string"
  toLowerCase :: "string \<Rightarrow> string"
  tokenize :: "string \<Rightarrow> string \<Rightarrow> js_error + string list"
  getCustomEntities :: "js_error + json list"
  extractPatterns :: "string \<Rightarrow> json list \<Rightarrow> js_error + json list"
  extractLists :: "NLUStructure \<Rightarrow> json list \<Rightarrow> js_error + json list"
  systemExtract :: "string \<Rightarrow> string \<Rightarrow> js_error + json list"
  getTextWithoutEntities :: "json list \<Rightarrow> string \<Rightarrow> string"
  exactMatch :: "json list \<Rightarrow> string \<Rightarrow> string list \<Rightarrow> Intent option"
  predict :: "Model list option \<Rightarrow> string list \<Rightarrow> string list \<Rightarrow> js_error + Intent list"
  findMostConfidentIntentMeanStd :: "Intent list \<Rightarrow> real \<Rightarrow> Intent"
  createIntentMatcher :: "string \<Rightarrow> string \<Rightarrow> bool"
  getIntent :: "string \<Rightarrow> js_error + json"
  slotExtract ::
    "(json list \<times> string \<times> string) option \<Rightarrow> string \<Rightarrow> string \<Rightarrow> json \<Rightarrow> json list \<Rightarrow> string list
      \<Rightarrow> js_error + json list"

text \<open>The calls a stage makes to its collaborators, in the order made.\<close>

datatype call =
    Identify | Tokenize | GetCustomEntities | ExtractPatterns | ExtractLists | SystemExtract
  | ExactMatch | Predict | GetIntent | SlotExtract

text \<open>
  A stage gives the context as it leaves it, the calls it made, and the exception it
  raised, if any. The stages are the arrow functions \<^verbatim>\<open>_detectLang\<close>, \<^verbatim>\<open>_tokenize\<close>,
  \<^verbatim>\<open>_extractEntities\<close>, \<^verbatim>\<open>_setTextWithoutEntities\<close>, \<^verbatim>\<open>_extractIntents\<close> and
  \<^verbatim>\<open>_extractSlots\<close>, named here without the underscore. Debug logging is left out.
\<close>

type_synonym stage_result = "NLUStructure \<times> call list \<times> js_error option"

definition detectLang :: "config \<Rightarrow> nlu_env \<Rightarrow> NLUStructure \<Rightarrow> stage_result" where
  "detectLang cfg svc ds =
     (case identify svc (rawText ds) of
        Inl e \<Rightarrow> (ds, [Identify], Some e)
      | Inr lang \<Rightarrow>
         (let ds1 = ds \<lparr> detectedLanguage := lang \<rparr>;
              lang' = (case lang of
                         None \<Rightarrow> defaultLanguage cfg
                       | Some l \<Rightarrow>
                           if l = [] \<or> l = ''n/a'' \<or> l \<notin> set (languages cfg)
                           then defaultLanguage cfg else l)
          in (ds1 \<lparr> language := lang' \<rparr>, [Identify], None)))"

definition tokenize_stage :: "nlu_env \<Rightarrow> NLUStructure \<Rightarrow> stage_result" where
  "tokenize_stage svc ds =
     (let ds1 = ds \<lparr> lowerText := toLowerCase svc (sanitize svc (rawText ds)) \<rparr>
      in case tokenize svc (lowerText ds1) (language ds1) of
           Inl e \<Rightarrow> (ds1, [Tokenize], Some e)
         | Inr toks \<Rightarrow> (ds1 \<lparr> tokens := map (sanitize svc) toks \<rparr>, [Tokenize], None))"

definition extractEntities :: "nlu_env \<Rightarrow> NLUStructure \<Rightarrow> stage_result" where
  "extractEntities svc ds =
     (case getCustomEntities svc of
        Inl e \<Rightarrow> (ds, [GetCustomEntities], Some e)
      | Inr customEntityDefs \<Rightarrow>
     (case extractPatterns svc (lowerText ds)
             (filter (\<lambda>ent. field ''type'' ent = Some (JStr ''pattern'')) customEntityDefs) of
        Inl e \<Rightarrow> (ds, [GetCustomEntities, ExtractPatterns], Some e)
      | Inr patternEntities \<Rightarrow>
     (case extractLists svc ds
             (filter (\<lambda>ent. field ''type'' ent = Some (JStr ''list'')) customEntityDefs) of
        Inl e \<Rightarrow> (ds, [GetCustomEntities, ExtractPatterns, ExtractLists], Some e)
      | Inr listEntities \<Rightarrow>
     (case systemExtract svc (lowerText ds) (language ds) of
        Inl e \<Rightarrow> (ds, [GetCustomEntities, ExtractPatterns, ExtractLists, SystemExtract], Some e)
      | Inr systemEntities \<Rightarrow>
          (ds \<lparr> entities := systemEntities @ patternEntities @ listEntities \<rparr>,
           [GetCustomEntities, ExtractPatterns, ExtractLists, SystemExtract], None)))))"

definition setTextWithoutEntities :: "nlu_env \<Rightarrow> NLUStructure \<Rightarrow> stage_result" where
  "setTextWithoutEntities svc ds =
     (ds \<lparr> sanitizedText :=
             toLowerCase svc (getTextWithoutEntities svc (entities ds) (rawText ds)) \<rparr>,
      [], None)"

text \<open>
  \<^verbatim>\<open>this.intentClassifiers[ds.language]\<close> and \<^verbatim>\<open>this.slotExtractors[ds.language]\<close> exist
  for the configured languages only: for another language the call raises a TypeError.
\<close>

definition extractIntents :: "config \<Rightarrow> nlu_env \<Rightarrow> models \<Rightarrow> NLUStructure \<Rightarrow> stage_result" where
  "extractIntents cfg svc m ds =
     (let exactMatcher = exactIntentMatchers m (language ds);
          exactIntent = (case exactMatcher of
                           None \<Rightarrow> None
                         | Some trainingSet \<Rightarrow>
                             exactMatch svc trainingSet (sanitizedText ds) (includedContexts ds));
          calls0 = (case exactMatcher of None \<Rightarrow> [] | Some trainingSet \<Rightarrow> [ExactMatch])
      in case exactIntent of
           Some x \<Rightarrow> (ds \<lparr> intent := Some x, intents := [x] \<rparr>, calls0, None)
         | None \<Rightarrow>
             if language ds \<notin> set (languages cfg)
             then (ds, calls0, Some (TypeError ''Cannot read property predict of undefined''))
             else
             (case predict svc (intentModels m (language ds)) (tokens ds) (includedContexts ds) of
                Inl e \<Rightarrow> (ds, calls0 @ [Predict], Some e)
              | Inr predictions \<Rightarrow>
                 (let best = findMostConfidentIntentMeanStd svc predictions (confidenceTreshold cfg);
                      best' = best \<lparr> matches := Some (createIntentMatcher svc (intent_name best)) \<rparr>
                  in (ds \<lparr> includedContexts := uniq (map intent_context predictions),
                           intents := predictions, intent := Some best' \<rparr>,
                      calls0 @ [Predict], None))))"

definition extractSlots :: "config \<Rightarrow> nlu_env \<Rightarrow> models \<Rightarrow> NLUStructure \<Rightarrow> stage_result" where
  "extractSlots cfg svc m ds =
     (case intent ds of
        None \<Rightarrow> (ds, [], Some (TypeError ''Cannot read property name of undefined''))
      | Some i \<Rightarrow>
          if intent_name i = ''none'' then (ds, [], None)
          else
          (case getIntent svc (intent_name i) of
             Inl e \<Rightarrow> (ds, [GetIntent], Some e)
           | Inr intentDef \<Rightarrow>
               if language ds \<notin> set (languages cfg)
               then (ds, [GetIntent], Some (TypeError ''Cannot read property extract of undefined''))
               else
               (case slotExtract svc (slotModels m (language ds)) (lowerText ds) (language ds)
                       intentDef (entities ds) (tokens ds) of
                  Inl e \<Rightarrow> (ds, [GetIntent, SlotExtract], Some e)
                | Inr found \<Rightarrow> (ds \<lparr> slots := found \<rparr>, [GetIntent, SlotExtract], None))))"

definition pipeline :: "config \<Rightarrow> nlu_env \<Rightarrow> models \<Rightarrow> (NLUStructure \<Rightarrow> stage_result) list" where
  "pipeline cfg svc m =
     [detectLang cfg svc, tokenize_stage svc, extractEntities svc, setTextWithoutEntities svc,
      extractIntents cfg svc m, extractSlots cfg svc m]"

text \<open>
  Modelled from the spec: the PipelineManager (\<^verbatim>\<open>./pipelinemanager\<close>) is not among the
  sources. The spec: the context is created fresh per request from the text and the
  included contexts, and the stages run in their fixed order over this single mutable
  record; a stage that fails ends the run.
\<close>

definition initFromText :: "string \<Rightarrow> string list \<Rightarrow> NLUStructure" where
  "initFromText text includedCtxs =
     \<lparr> rawText = text, lowerText = [], sanitizedText = [], detectedLanguage = None,
       language = [], includedContexts = includedCtxs, tokens = [], entities = [],
       intents = [], intent = None, slots = [] \<rparr>"

fun run_stages :: "(NLUStructure \<Rightarrow> stage_result) list \<Rightarrow> NLUStructure \<Rightarrow> stage_result" where
  "run_stages [] ds = (ds, [], None)"
| "run_stages (stage # stages) ds =
     (case stage ds of
        (ds', calls, Some e) \<Rightarrow> (ds', calls, Some e)
      | (ds', calls, None) \<Rightarrow>
          (case run_stages stages ds' of (ds'', calls', r) \<Rightarrow> (ds'', calls @ calls', r)))"

definition runner_run :: "config \<Rightarrow> models \<Rightarrow> nlu_env \<Rightarrow> NLUStructure \<Rightarrow> stage_result" where
  "runner_run cfg m svc ds = run_stages (pipeline cfg svc m) ds"

text \<open>
  \<^verbatim>\<open>retry(() => runner.run(), this.retryPolicy)\<close> (bluebird-retry): the run is tried
  again after a failure, at most \<^verbatim>\<open>max_tries\<close> times in all and while the policy's
  timeout allows. The first attempt sees the collaborators \<open>svc\<close>; \<open>later\<close> holds the
  collaborators as the further attempts that the timeout allows would see them. Every
  attempt works on the same context object, as the attempt before left it.
\<close>

definition max_tries :: nat where
  "max_tries = 3"

fun retry ::
  "(nlu_env \<Rightarrow> NLUStructure \<Rightarrow> stage_result) \<Rightarrow> nat \<Rightarrow> nlu_env \<Rightarrow> nlu_env list \<Rightarrow> NLUStructure
    \<Rightarrow> stage_result" where
  "retry f tries svc [] ds = f svc ds"
| "retry f tries svc (svc' # later) ds =
     (case f svc ds of
        (ds', calls, None) \<Rightarrow> (ds', calls, None)
      | (ds', calls, Some e) \<Rightarrow>
          if tries \<le> 1 then (ds', calls, Some e)
          else (case retry f (tries - 1) svc' later ds' of
                  (ds'', calls', r) \<Rightarrow> (ds'', calls @ calls', r)))"

text \<open>
  The result of \<^verbatim>\<open>extract\<close>: the object \<^verbatim>\<open>res\<close>. On success it is the context object
  of the run with \<^verbatim>\<open>errored\<close> and \<^verbatim>\<open>ms\<close> added; otherwise it is the object
  \<^verbatim>\<open>{ errored: true }\<close> the function started with, which has no other field
  (\<open>understanding = None\<close>).
\<close>

record EventUnderstanding =
  errored :: bool
  ms :: "int option"
  understanding :: "NLUStructure option"

text \<open>
  \<^verbatim>\<open>extract(text, includedContexts)\<close> (named \<open>extract'\<close>), with the two readings \<open>t0\<close> and \<open>t1\<close> of
  \<^verbatim>\<open>Date.now()\<close>. The \<^verbatim>\<open>return\<close> inside \<^verbatim>\<open>finally\<close> is how the call completes,
  whatever the \<^verbatim>\<open>try\<close> and \<^verbatim>\<open>catch\<close> blocks did: an exception is an \<open>Inl\<close>, a
  returned result an \<open>Inr\<close>.
\<close>

definition extract' ::
  "config \<Rightarrow> sync_env \<Rightarrow> nlu_env \<Rightarrow> nlu_env list \<Rightarrow> int \<Rightarrow> int \<Rightarrow> string \<Rightarrow> string list \<Rightarrow> engine
    \<Rightarrow> engine \<times> (js_error + EventUnderstanding)" where
  "extract' cfg ssvc svc later t0 t1 text includedCtxs e =
     (let e' = (if \<not> preloaded e then fst (trainOrLoad cfg ssvc False e) else e);
          res0 = \<lparr> errored = True, ms = None, understanding = None \<rparr>;
          res = (case retry (runner_run cfg (loaded e')) max_tries svc later
                        (initFromText text includedCtxs) of
                   (ds, calls, None) \<Rightarrow> \<lparr> errored = False, ms = None, understanding = Some ds \<rparr>
                 | (ds, calls, Some error) \<Rightarrow> res0)
      in (e', Inr (res \<lparr> ms := Some (t1 - t0) \<rparr>)))"

section \<open>Feature engineering: pairwise feature combination (featurizer2.ts)\<close>

text \<open>
  \<^verbatim>\<open>type FeatureValue = string | number | boolean\<close>. The numbers the featurizer produces
  (character counts, quantiles, cluster ids) are integers.
\<close>

datatype FeatureValue = Str string | Num int | Bool bool

text \<open>
  \<^verbatim>\<open>interface CRFFeature { name: string; value: FeatureValue; boost?: number }\<close>. The
  optional field is an option: \<open>None\<close> is a feature without a boost.
\<close>

record CRFFeature =
  name :: string
  value' :: FeatureValue
  boost :: "int option"

text \<open>What the template literal \<^verbatim>\<open>`${v}`\<close> gives for a feature value.\<close>

fun toString :: "FeatureValue \<Rightarrow> string" where
  "toString (Str s) = s"
| "toString (Num i) = string_of_int i"
| "toString (Bool b) = (if b then ''true'' else ''false'')"

text \<open>
  \<^verbatim>\<open>const valueOf = (feat) => _.get(feat, 'value', 'null')\<close> and
  \<^verbatim>\<open>const boostOf = (feat) => _.get(feat, 'boost', 1)\<close>: the default is taken when the
  feature is undefined, and for the boost also when the feature carries none.
\<close>

definition valueOf :: "CRFFeature option \<Rightarrow> FeatureValue" where
  "valueOf feat = (case feat of None \<Rightarrow> Str ''null'' | Some f \<Rightarrow> value' f)"

definition boostOf :: "CRFFeature option \<Rightarrow> int" where
  "boostOf feat =
     (case feat of None \<Rightarrow> 1 | Some f \<Rightarrow> (case boost f of None \<Rightarrow> 1 | Some b \<Rightarrow> b))"

text \<open>
  The callback of \<^verbatim>\<open>featNames.map\<close>: \<^verbatim>\<open>find\<close> gives the first feature of that name,
  and the callback returns undefined (\<open>None\<close>) when neither side has one.
\<close>

definition pairFeat :: "CRFFeature list \<Rightarrow> CRFFeature list \<Rightarrow> string \<Rightarrow> CRFFeature option" where
  "pairFeat feats0 feats1 targetFeat =
     (let f0 = find (\<lambda>f. name f = targetFeat) feats0;
          f1 = find (\<lambda>f. name f = targetFeat) feats1
      in if f0 \<noteq> None \<or> f1 \<noteq> None
         then Some \<lparr> name = targetFeat,
                     value' = Str (toString (valueOf f0) @ ''|'' @ toString (valueOf f1)),
                     boost = Some (max (boostOf f0) (boostOf f1)) \<rparr>
         else None)"

text \<open>\<^verbatim>\<open>.filter(_.identity)\<close>: the undefined entries are dropped, the objects stay.\<close>

fun compact :: "'a option list \<Rightarrow> 'a list" where
  "compact [] = []"
| "compact (None # xs) = compact xs"
| "compact (Some x # xs) = x # compact xs"

definition getFeatPairs :: "CRFFeature list \<Rightarrow> CRFFeature list \<Rightarrow> string list \<Rightarrow> CRFFeature list" where
  "getFeatPairs feats0 feats1 featNames = compact (map (pairFeat feats0 feats1) featNames)"

text \<open>
  The combination as the specification words it: a name is present in a feature set when
  a feature of the set carries it; the text and the boost of a side are those of the
  side's feature of that name, and the sentinel \<^verbatim>\<open>null\<close> and the boost 1 when the side has
  none (the boost 1 also when the feature has no boost).
\<close>

definition present :: "CRFFeature list \<Rightarrow> string \<Rightarrow> bool" where
  "present feats n = (n \<in> name ` set feats)"

definition side_text :: "CRFFeature list \<Rightarrow> string \<Rightarrow> string" where
  "side_text feats n =
     (case find (\<lambda>f. name f = n) feats of None \<Rightarrow> ''null'' | Some f \<Rightarrow> toString (value' f))"

definition side_boost :: "CRFFeature list \<Rightarrow> string \<Rightarrow> int" where
  "side_boost feats n =
     (case find (\<lambda>f. name f = n) feats of
        None \<Rightarrow> 1
      | Some f \<Rightarrow> (case boost f of None \<Rightarrow> 1 | Some b \<Rightarrow> b))"

definition combined :: "CRFFeature list \<Rightarrow> CRFFeature list \<Rightarrow> string \<Rightarrow> CRFFeature" where
  "combined feats0 feats1 n =
     \<lparr> name = n,
       value' = Str (side_text feats0 n @ ''|'' @ side_text feats1 n),
       boost = Some (max (side_boost feats0 n) (side_boost feats1 n)) \<rparr>"

section \<open>Concrete inputs\<close>

text \<open>
  An engine for English only, whose collaborators all answer: the classifier finds no
  intent, the exact matcher knows the training utterance \<^verbatim>\<open>hi\<close> of the intent
  \<^verbatim>\<open>hello\<close>.
\<close>

text \<open>Lower-casing of the ASCII letters, which is what the runtime does on ASCII text.\<close>

definition lower_char :: "char \<Rightarrow> char" where
  "lower_char c =
     (case map_of (zip ''ABCDEFGHIJKLMNOPQRSTUVWXYZ'' ''abcdefghijklmnopqrstuvwxyz'') c of
        None \<Rightarrow> c
      | Some l \<Rightarrow> l)"

definition ascii_lower :: "string \<Rightarrow> string" where
  "ascii_lower s = map lower_char s"

definition example_config :: config where
  "example_config = \<lparr> languages = [''en''], defaultLanguage = ''en'', confidenceTreshold = 0.7 \<rparr>"

definition none_intent :: Intent where
  "none_intent =
     \<lparr> intent_name = ''none'', intent_context = ''global'', confidence = 1, matches = None \<rparr>"

definition hello_intent :: Intent where
  "hello_intent =
     \<lparr> intent_name = ''hello'', intent_context = ''global'', confidence = 1, matches = None \<rparr>"

definition example_nlu_env :: nlu_env where
  "example_nlu_env =
     \<lparr> identify = (\<lambda>t. Inr (Some ''en'')),
       sanitize = (\<lambda>s. s),
       toLowerCase = ascii_lower,
       tokenize = (\<lambda>s lang. Inr [s]),
       getCustomEntities = Inr [],
       extractPatterns = (\<lambda>s defs. Inr []),
       extractLists = (\<lambda>ds defs. Inr []),
       systemExtract = (\<lambda>s lang. Inr []),
       getTextWithoutEntities = (\<lambda>ents s. s),
       exactMatch = (\<lambda>trainingSet s ctxs. if JStr s \<in> set trainingSet then Some hello_intent else None),
       predict = (\<lambda>ms toks ctxs. Inr [none_intent]),
       findMostConfidentIntentMeanStd = (\<lambda>preds threshold. none_intent),
       createIntentMatcher = (\<lambda>n pattern. n = pattern),
       getIntent = (\<lambda>n. Inr (JObj [(''name'', JStr n)])),
       slotExtract = (\<lambda>ld s lang intentDef ents toks. Inr [JStr ''slot'']) \<rparr>"

definition example_models :: models where
  "example_models =
     \<lparr> exactIntentMatchers = [''en'' \<mapsto> [JStr ''hi'']],
       intentModels = Map.empty, slotModels = Map.empty, store = (\<lambda>lang. []) \<rparr>"

text \<open>The context of the text \<^verbatim>\<open>yo\<close> after the first four stages, and after the fifth.\<close>

definition yo_ds :: NLUStructure where
  "yo_ds =
     \<lparr> rawText = ''yo'', lowerText = ''yo'', sanitizedText = ''yo'',
       detectedLanguage = Some ''en'', language = ''en'', includedContexts = [],
       tokens = [''yo''], entities = [], intents = [], intent = None, slots = [] \<rparr>"

definition yo_none_ds :: NLUStructure where
  "yo_none_ds =
     yo_ds \<lparr> includedContexts := [''global''], intents := [none_intent],
             intent := Some (none_intent \<lparr> matches := Some (\<lambda>pattern. ''none'' = pattern) \<rparr>) \<rparr>"


text \<open>
  The same engine with French as its default language, which is not among its languages,
  and a language identifier that answers German.
\<close>

definition french_default_config :: config where
  "french_default_config = example_config \<lparr> defaultLanguage := ''fr'' \<rparr>"

definition german_env :: nlu_env where
  "german_env = example_nlu_env \<lparr> identify := (\<lambda>t. Inr (Some ''de'')) \<rparr>"

text \<open>
  One intent with three English utterances; collaborators of a sync cycle that all
  answer; an engine that has not synced yet, over an empty Model Store.
\<close>

definition example_intents :: "json list" where
  "example_intents =
     [JObj [(''name'', JStr ''hello''),
            (''utterances'', JObj [(''en'', JArr [JStr ''hi'', JStr ''hey'', JStr ''yo''])]),
            (''slots'', JArr []),
            (''contexts'', JArr [JStr ''global''])]]"

definition example_sync_env :: sync_env where
  "example_sync_env =
     \<lparr> getIntents = Inr example_intents,
       MODEL_TYPES_INTENT = [''intent''],
       MODEL_TYPES_SLOT_LANG = ''slot-language'',
       MODEL_TYPES_SLOT_CRF = ''slot-crf'',
       generateTrainingSequence = (\<lambda>utterance lang slotDefs intentName. Inr utterance),
       classifier_train = (\<lambda>lang intents modelHash.
          Inr [\<lparr> meta_context = ''global'', meta_created_on = 1, meta_hash = modelHash,
                 meta_type = ''intent'', meta_scope = ''bot'', model = ''svm'' \<rparr>]),
       classifier_load = (\<lambda>lang ms. None),
       slot_train = (\<lambda>lang trainingSet. Inr (Some ''lm'', Some ''crf'')),
       slot_load = (\<lambda>lang trainingSet lm crf. None),
       now = 2 \<rparr>"

definition empty_models :: models where
  "empty_models =
     \<lparr> exactIntentMatchers = Map.empty, intentModels = Map.empty, slotModels = Map.empty,
       store = (\<lambda>lang. []) \<rparr>"

definition fresh_engine :: engine where
  "fresh_engine =
     \<lparr> isSyncing = False, isSyncingTwice = False, preloaded = False, currentModelHash = None,
       loaded = empty_models, inflightForce = False, syncCycles = 0, syncLog = [] \<rparr>"

text \<open>An engine that serves the models of the hash \<^verbatim>\<open>abc\<close> while a sync cycle is in flight.\<close>

definition syncing_engine :: engine where
  "syncing_engine =
     fresh_engine \<lparr> isSyncing := True, preloaded := True, currentModelHash := Some ''abc'',
                    syncCycles := 2 \<rparr>"

text \<open>
  The hash of the example's intents, and the engine's models after the first sync from the
  empty store: the slot tagger's and the classifier's artifacts persisted under the hash,
  and loaded.
\<close>

definition example_hash :: string where
  "example_hash = computeModelHash example_intents"

definition trained_models :: models where
  "trained_models =
     \<lparr> exactIntentMatchers = [''en'' \<mapsto> [JStr ''hi'', JStr ''hey'', JStr ''yo'']],
       intentModels =
         [''en'' \<mapsto> [\<lparr> meta_context = ''global'', meta_created_on = 1, meta_hash = example_hash,
                         meta_type = ''intent'', meta_scope = ''bot'', model = ''svm'' \<rparr>]],
       slotModels = [''en'' \<mapsto> ([JStr ''hi'', JStr ''hey'', JStr ''yo''], ''lm'', ''crf'')],
       store = (\<lambda>lang. [])
         (''en'' :=
            [\<lparr> meta_context = ''global'', meta_created_on = 2, meta_hash = example_hash,
                meta_type = ''slot-language'', meta_scope = ''bot'', model = ''lm'' \<rparr>,
             \<lparr> meta_context = ''global'', meta_created_on = 2, meta_hash = example_hash,
                meta_type = ''slot-crf'', meta_scope = ''bot'', model = ''crf'' \<rparr>,
             \<lparr> meta_context = ''global'', meta_created_on = 1, meta_hash = example_hash,
                meta_type = ''intent'', meta_scope = ''bot'', model = ''svm'' \<rparr>]) \<rparr>"

text \<open>An engine that has loaded the models of the pipeline example.\<close>

definition ready_engine :: engine where
  "ready_engine =
     fresh_engine \<lparr> preloaded := True, currentModelHash := Some ''abc'', loaded := example_models,
                    syncCycles := 1 \<rparr>"

text \<open>Collaborators whose tokenizer is unavailable, and the context a run then leaves.\<close>

definition failing_env :: nlu_env where
  "failing_env = example_nlu_env \<lparr> tokenize := (\<lambda>s lang. Inl (Error ''tokenizer unavailable'')) \<rparr>"

definition yo_partial_ds :: NLUStructure where
  "yo_partial_ds =
     initFromText ''yo'' [] \<lparr> lowerText := ''yo'', detectedLanguage := Some ''en'', language := ''en'' \<rparr>"

text \<open>The engine's models after training from the empty store, before the reload.\<close>

definition trained_store :: models where
  "trained_store = empty_models \<lparr> store := store trained_models \<rparr>"

text \<open>
  The example engine after a call and two further calls during the cycle in flight;
  after the end of that cycle, with the follow-up cycle in flight; and after the end of
  the follow-up.
\<close>

definition in_flight_engine :: engine where
  "in_flight_engine = fresh_engine \<lparr> isSyncing := True, isSyncingTwice := True, syncCycles := 1 \<rparr>"

definition follow_up_engine :: engine where
  "follow_up_engine =
     fresh_engine \<lparr> isSyncing := True, preloaded := True, currentModelHash := Some example_hash,
                    loaded := trained_models, syncCycles := 2,
                    syncLog := [GetIntents, LoadModels example_hash, TrainModels example_hash,
                                LoadModels example_hash] \<rparr>"

definition synced_engine :: engine where
  "synced_engine =
     follow_up_engine \<lparr> isSyncing := False,
                    syncLog := [GetIntents, LoadModels example_hash, TrainModels example_hash,
                                LoadModels example_hash, GetIntents, LoadModels example_hash] \<rparr>"

section \<open>Auxiliary notions for the serialisation\<close>

text \<open>
  The decimal digits; the texts that may follow a value inside a serialised array or object
  (nothing, a comma, or a closing bracket or brace); the constructor of a value, and the
  constructor that the first character of a serialised value announces.
\<close>

definition is_digit :: "char \<Rightarrow> bool" where
  "is_digit c = (c \<in> set ''0123456789'')"

definition closes :: "string \<Rightarrow> bool" where
  "closes r = (case r of [] \<Rightarrow> True | c # cs \<Rightarrow> c = CHR '','' \<or> c = CHR '']'' \<or> c = CHR ''}'')"

fun tag :: "json \<Rightarrow> nat" where
  "tag JNull = 0"
| "tag (JBool b) = 1"
| "tag (JNum i) = 2"
| "tag (JStr s) = 3"
| "tag (JArr xs) = 4"
| "tag (JObj kvs) = 5"

definition kind :: "char \<Rightarrow> nat" where
  "kind c =
     (if c = CHR ''n'' then 0
      else if c = CHR ''t'' \<or> c = CHR ''f'' then 1
      else if is_digit c \<or> c = CHR ''-'' then 2
      else if c = CHR 0x22 then 3
      else if c = CHR ''['' then 4
      else if c = CHR ''{'' then 5
      else 6)"

text \<open>
  Two lists of one intent definition each, with the same two properties in opposite key
  order, and the single MD5 block of the serialisation of each.
\<close>

definition name_first :: "json list" where
  "name_first = [JObj [(''name'', JStr ''a''), (''contexts'', JArr [])]]"

definition contexts_first :: "json list" where
  "contexts_first = [JObj [(''contexts'', JArr []), (''name'', JStr ''a'')]]"

definition name_first_block :: "w32 list" where
  "name_first_block =
     [0x6e227b5b, 0x22656d61, 0x2261223a, 0x6f63222c, 0x7865746e, 0x3a227374, 0x5d7d5d5b, 0x00000080, 0x00000000, 0x00000000, 0x00000000, 0x00000000, 0x00000000, 0x00000000, 0x000000e0, 0x00000000]"

definition contexts_first_block :: "w32 list" where
  "contexts_first_block =
     [0x63227b5b, 0x65746e6f, 0x22737478, 0x2c5d5b3a, 0x6d616e22, 0x223a2265, 0x5d7d2261, 0x00000080, 0x00000000, 0x00000000, 0x00000000, 0x00000000, 0x00000000, 0x00000000, 0x000000e0, 0x00000000]"

section \<open>Pairwise feature combination\<close>

lemma present_find: "present fs n = (find (\<lambda>f. name f = n) fs \<noteq> None)"
  by (auto simp: find_None_iff present_def)

lemma pairFeat_Some:
  "present feats0 n \<or> present feats1 n \<Longrightarrow>
     pairFeat feats0 feats1 n = Some (combined feats0 feats1 n)"
  unfolding present_find
  by (cases "find (\<lambda>f. name f = n) feats0"; cases "find (\<lambda>f. name f = n) feats1")
     (simp_all add: pairFeat_def combined_def side_text_def side_boost_def valueOf_def boostOf_def)

lemma pairFeat_None:
  "\<not> present feats0 n \<Longrightarrow> \<not> present feats1 n \<Longrightarrow> pairFeat feats0 feats1 n = None"
  by (simp add: pairFeat_def present_find)

text \<open>
  C10: for every pair of feature sets and every list of feature names, \<open>getFeatPairs\<close>
  returns, in the order of the list, exactly one combined feature for each listed name
  that is present in at least one of the two sets, and none for a name absent from both.
  The combined feature carries the name; its value is the left value, the separator
  \<^verbatim>\<open>|\<close> and the right value, with \<^verbatim>\<open>null\<close> for an absent side; its boost is the maximum
  of the two sides' boosts, an absent or boost-less side counting as 1.
\<close>

theorem getFeatPairs_combines:
  "getFeatPairs feats0 feats1 featNames =
     map (combined feats0 feats1)
       (filter (\<lambda>n. present feats0 n \<or> present feats1 n) featNames)"
proof (induction featNames)
  case Nil
  show ?case by (simp add: getFeatPairs_def)
next
  case (Cons n ns)
  show ?case
  proof (cases "present feats0 n \<or> present feats1 n")
    case True
    then have "pairFeat feats0 feats1 n = Some (combined feats0 feats1 n)"
      by (rule pairFeat_Some)
    with True Cons show ?thesis by (simp add: getFeatPairs_def)
  next
    case False
    then have "pairFeat feats0 feats1 n = None"
      by (simp add: pairFeat_None)
    with False Cons show ?thesis by (simp add: getFeatPairs_def)
  qed
qed

text \<open>
  The theorem at two token feature sets: \<^verbatim>\<open>word\<close> is on both sides, \<^verbatim>\<open>num\<close> on the left
  only, \<^verbatim>\<open>space\<close> on the right only (with boost 0), \<^verbatim>\<open>cluster\<close> on neither.
\<close>

theorem getFeatPairs_combines_witness:
  "getFeatPairs
     [\<lparr>name = ''word'', value' = Str ''hello'', boost = Some 3\<rparr>,
      \<lparr>name = ''num'', value' = Num 12, boost = None\<rparr>]
     [\<lparr>name = ''word'', value' = Str ''you'', boost = None\<rparr>,
      \<lparr>name = ''space'', value' = Bool True, boost = Some 0\<rparr>]
     [''word'', ''cluster'', ''num'', ''space''] =
   [\<lparr>name = ''word'', value' = Str ''hello|you'', boost = Some 3\<rparr>,
    \<lparr>name = ''num'', value' = Str ''12|null'', boost = Some 1\<rparr>,
    \<lparr>name = ''space'', value' = Str ''null|true'', boost = Some 1\<rparr>]"
  using getFeatPairs_combines
    [of "[\<lparr>name = ''word'', value' = Str ''hello'', boost = Some 3\<rparr>,
          \<lparr>name = ''num'', value' = Num 12, boost = None\<rparr>]"
        "[\<lparr>name = ''word'', value' = Str ''you'', boost = None\<rparr>,
          \<lparr>name = ''space'', value' = Bool True, boost = Some 0\<rparr>]"
        "[''word'', ''cluster'', ''num'', ''space'']"]
  by (simp add: present_def combined_def side_text_def side_boost_def string_of_int_def
        string_of_nat.simps)

section \<open>The stages of the pipeline\<close>

lemmas stage_defs = detectLang_def tokenize_stage_def extractEntities_def
  setTextWithoutEntities_def extractIntents_def extractSlots_def initFromText_def ascii_lower_def
  lower_char_def uniq_def uniqBy_def Let_def

lemmas example_defs = example_config_def example_nlu_env_def example_models_def none_intent_def
  hello_intent_def yo_ds_def yo_none_ds_def

text \<open>The first five stages leave the slots alone and call neither the intent source nor the tagger.\<close>

lemma detectLang_frame:
  "detectLang cfg svc ds = (ds', calls, r) \<Longrightarrow>
     slots ds' = slots ds \<and> GetIntent \<notin> set calls \<and> SlotExtract \<notin> set calls"
  by (auto simp: detectLang_def Let_def split: sum.splits option.splits if_splits)

lemma tokenize_stage_frame:
  "tokenize_stage svc ds = (ds', calls, r) \<Longrightarrow>
     slots ds' = slots ds \<and> GetIntent \<notin> set calls \<and> SlotExtract \<notin> set calls"
  by (auto simp: tokenize_stage_def Let_def split: sum.splits)

lemma extractEntities_frame:
  "extractEntities svc ds = (ds', calls, r) \<Longrightarrow>
     slots ds' = slots ds \<and> GetIntent \<notin> set calls \<and> SlotExtract \<notin> set calls"
  by (auto simp: extractEntities_def split: sum.splits)

lemma setTextWithoutEntities_frame:
  "setTextWithoutEntities svc ds = (ds', calls, r) \<Longrightarrow>
     slots ds' = slots ds \<and> GetIntent \<notin> set calls \<and> SlotExtract \<notin> set calls"
  by (auto simp: setTextWithoutEntities_def)

lemma extractIntents_frame:
  "extractIntents cfg svc m ds = (ds', calls, r) \<Longrightarrow>
     slots ds' = slots ds \<and> GetIntent \<notin> set calls \<and> SlotExtract \<notin> set calls"
  by (auto simp: extractIntents_def Let_def split: sum.splits option.splits if_splits)

lemma extractSlots_none:
  "intent ds = Some i \<Longrightarrow> intent_name i = ''none'' \<Longrightarrow>
     extractSlots cfg svc m ds = (ds, [], None)"
  by (simp add: extractSlots_def)

lemma extractSlots_intent:
  "extractSlots cfg svc m ds = (ds', calls, r) \<Longrightarrow> intent ds' = intent ds"
  by (auto simp: extractSlots_def split: sum.splits option.splits if_splits)

text \<open>The run of the example on the text \<^verbatim>\<open>yo\<close>, stage by stage.\<close>

lemma yo_stages:
  "detectLang example_config example_nlu_env (initFromText ''yo'' []) =
     (initFromText ''yo'' [] \<lparr> detectedLanguage := Some ''en'', language := ''en'' \<rparr>, [Identify], None)"
  "tokenize_stage example_nlu_env
       (initFromText ''yo'' [] \<lparr> detectedLanguage := Some ''en'', language := ''en'' \<rparr>) =
     (yo_ds \<lparr> sanitizedText := [] \<rparr>, [Tokenize], None)"
  "extractEntities example_nlu_env (yo_ds \<lparr> sanitizedText := [] \<rparr>) =
     (yo_ds \<lparr> sanitizedText := [] \<rparr>,
      [GetCustomEntities, ExtractPatterns, ExtractLists, SystemExtract], None)"
  "setTextWithoutEntities example_nlu_env (yo_ds \<lparr> sanitizedText := [] \<rparr>) = (yo_ds, [], None)"
  "extractIntents example_config example_nlu_env example_models yo_ds =
     (yo_none_ds, [ExactMatch, Predict], None)"
  "extractSlots example_config example_nlu_env example_models yo_none_ds = (yo_none_ds, [], None)"
  by (simp_all add: stage_defs example_defs)

lemma yo_run:
  "runner_run example_config example_models example_nlu_env (initFromText ''yo'' []) =
     (yo_none_ds,
      [Identify, Tokenize, GetCustomEntities, ExtractPatterns, ExtractLists, SystemExtract,
       ExactMatch, Predict],
      None)"
  by (simp add: runner_run_def pipeline_def yo_stages)

text \<open>
  C5: in every pipeline run in which the selected intent is the reserved intent
  \<^verbatim>\<open>none\<close>, the slot-extraction stage returns the context unchanged, without a call and
  without an error. A run that started with empty slots (as every run does) ends with
  empty slots, and neither the intent-definition lookup nor the slot extractor was called
  during it.
\<close>

theorem none_intent_skips_slots:
  assumes run: "runner_run cfg m svc ds0 = (ds, calls, None)"
    and empty: "slots ds0 = []"
    and sel: "intent ds = Some i" "intent_name i = ''none''"
  shows "extractSlots cfg svc m ds = (ds, [], None) \<and> slots ds = [] \<and>
         GetIntent \<notin> set calls \<and> SlotExtract \<notin> set calls"
proof -
  obtain d1 c1 r1 where s1: "detectLang cfg svc ds0 = (d1, c1, r1)" by (rule prod_cases3)
  obtain d2 c2 r2 where s2: "tokenize_stage svc d1 = (d2, c2, r2)" by (rule prod_cases3)
  obtain d3 c3 r3 where s3: "extractEntities svc d2 = (d3, c3, r3)" by (rule prod_cases3)
  obtain d4 c4 r4 where s4: "setTextWithoutEntities svc d3 = (d4, c4, r4)" by (rule prod_cases3)
  obtain d5 c5 r5 where s5: "extractIntents cfg svc m d4 = (d5, c5, r5)" by (rule prod_cases3)
  obtain d6 c6 r6 where s6: "extractSlots cfg svc m d5 = (d6, c6, r6)" by (rule prod_cases3)
  from run s1 s2 s3 s4 s5 s6
  have res: "ds = d6" "calls = c1 @ c2 @ c3 @ c4 @ c5 @ c6"
    by (auto simp: runner_run_def pipeline_def split: option.splits)
  from s6 res sel have "intent d5 = Some i" by (simp add: extractSlots_intent)
  with sel s6 have six: "d6 = d5" "c6 = []" by (simp_all add: extractSlots_none)
  from sel have "extractSlots cfg svc m ds = (ds, [], None)" by (rule extractSlots_none)
  with detectLang_frame[OF s1] tokenize_stage_frame[OF s2] extractEntities_frame[OF s3]
    setTextWithoutEntities_frame[OF s4] extractIntents_frame[OF s5] empty six res
  show ?thesis by simp
qed

text \<open>The theorem at the run of the example on \<^verbatim>\<open>yo\<close>, for which the classifier finds no intent.\<close>

theorem none_intent_skips_slots_witness:
  "runner_run example_config example_models example_nlu_env (initFromText ''yo'' []) =
     (yo_none_ds,
      [Identify, Tokenize, GetCustomEntities, ExtractPatterns, ExtractLists, SystemExtract,
       ExactMatch, Predict],
      None) \<and>
   slots (initFromText ''yo'' []) = [] \<and>
   intent_name (the (intent yo_none_ds)) = ''none'' \<and>
   extractSlots example_config example_nlu_env example_models yo_none_ds = (yo_none_ds, [], None) \<and>
   slots yo_none_ds = []"
  using none_intent_skips_slots [OF yo_run, of "the (intent yo_none_ds)"] yo_run
  by (simp add: initFromText_def example_defs)

text \<open>
  The claim C7 as stated, that after the language-detection stage the language of the
  context is always one of the engine's configured languages, fails for an engine whose
  default language is not among its languages: the identifier answers German, the engine
  knows English only, and the stage substitutes the default, French.
\<close>

theorem detectLang_default_counterexample:
  "detectLang french_default_config german_env (initFromText ''hallo'' []) =
     (initFromText ''hallo'' [] \<lparr> detectedLanguage := Some ''de'', language := ''fr'' \<rparr>,
      [Identify], None) \<and>
   ''fr'' \<notin> set (languages french_default_config)"
  by (simp add: detectLang_def french_default_config_def german_env_def example_config_def
        example_nlu_env_def)

text \<open>
  C7, amended: when the language identifier answers, the language-detection stage raises
  no error, records the answer as the detected language, and sets the language of the
  context to the answer when it is a configured language other than \<^verbatim>\<open>n/a\<close>, and to the
  configured default language when the answer is absent, empty, \<^verbatim>\<open>n/a\<close> or not
  configured. So the language is a configured language or the default language, and it is
  a member of the configured language set whenever the default language is.
\<close>

theorem detectLang_language:
  assumes answer: "identify svc (rawText ds) = Inr lang"
    and stage: "detectLang cfg svc ds = (ds', calls, r)"
  shows "r = None \<and> detectedLanguage ds' = lang \<and>
         (language ds' \<in> set (languages cfg) \<or> language ds' = defaultLanguage cfg) \<and>
         (defaultLanguage cfg \<in> set (languages cfg) \<longrightarrow> language ds' \<in> set (languages cfg)) \<and>
         (lang = None \<or> lang = Some [] \<or> lang = Some ''n/a'' \<or>
            (\<exists>l. lang = Some l \<and> l \<notin> set (languages cfg))
          \<longrightarrow> language ds' = defaultLanguage cfg) \<and>
         (\<forall>l. lang = Some l \<and> l \<noteq> [] \<and> l \<noteq> ''n/a'' \<and> l \<in> set (languages cfg)
          \<longrightarrow> language ds' = l)"
  using assms by (auto simp: detectLang_def Let_def split: option.splits if_splits)

text \<open>
  The amended statement at the English-only engine with English as its default: the
  German answer is replaced by English, silently.
\<close>

theorem detectLang_language_witness:
  "identify german_env (rawText (initFromText ''hallo'' [])) = Inr (Some ''de'') \<and>
   detectLang example_config german_env (initFromText ''hallo'' []) =
     (initFromText ''hallo'' [] \<lparr> detectedLanguage := Some ''de'', language := ''en'' \<rparr>,
      [Identify], None) \<and>
   defaultLanguage example_config \<in> set (languages example_config) \<and>
   language (initFromText ''hallo'' [] \<lparr> detectedLanguage := Some ''de'', language := ''en'' \<rparr>)
     \<in> set (languages example_config)"
  using detectLang_language [where svc = german_env and ds = "initFromText ''hallo'' []"
      and lang = "Some ''de''" and cfg = example_config
      and ds' = "initFromText ''hallo'' [] \<lparr> detectedLanguage := Some ''de'', language := ''en'' \<rparr>"
      and calls = "[Identify]" and r = None]
  by (simp add: detectLang_def german_env_def example_config_def example_nlu_env_def)



section \<open>The result of extract\<close>

declare retry.simps [simp del]

lemma extract_unfold:
  "extract' cfg ssvc svc later t0 t1 text ctxs e = (e', r) \<Longrightarrow>
     e' = (if \<not> preloaded e then fst (trainOrLoad cfg ssvc False e) else e) \<and>
     r = Inr ((case retry (runner_run cfg (loaded e')) max_tries svc later (initFromText text ctxs) of
                 (ds, calls, None) \<Rightarrow> \<lparr> errored = False, ms = None, understanding = Some ds \<rparr>
               | (ds, calls, Some error) \<Rightarrow> \<lparr> errored = True, ms = None, understanding = None \<rparr>)
              \<lparr> ms := Some (t1 - t0) \<rparr>)"
  by (auto simp: extract'_def Let_def)

lemma yo_extract:
  "extract' example_config example_sync_env example_nlu_env [] t0 t1 ''yo'' [] ready_engine =
     (ready_engine, Inr \<lparr> errored = False, ms = Some (t1 - t0), understanding = Some yo_none_ds \<rparr>)"
  by (simp add: extract'_def ready_engine_def fresh_engine_def retry.simps yo_run)

text \<open>
  The claim C3 as stated, that the \<open>ms\<close> field of every result is non-negative, fails
  when the wall clock is set back during the call: \<open>extract'\<close> subtracts the first reading
  of \<^verbatim>\<open>Date.now()\<close> from the second, and with the readings 1005 and 1000 the successful run
  of the example on \<^verbatim>\<open>yo\<close> returns \<open>ms = -5\<close>.
\<close>

theorem extract_negative_ms_counterexample:
  "extract' example_config example_sync_env example_nlu_env [] 1005 1000 ''yo'' [] ready_engine =
     (ready_engine, Inr \<lparr> errored = False, ms = Some (- 5), understanding = Some yo_none_ds \<rparr>) \<and>
   \<not> (0 :: int) \<le> - 5"
  by (simp add: yo_extract)

text \<open>
  C3, amended: for every text and context list, \<open>extract'\<close> completes with a result, never
  with an exception; the result's \<open>ms\<close> field is always set, to the second reading of the
  wall clock minus the first, both when \<open>errored\<close> is false (the retried run succeeded) and
  when it is true (the retried run gave up with an error). The field is non-negative
  exactly when the second reading is not before the first.
\<close>

theorem extract_result_elapsed:
  assumes call: "extract' cfg ssvc svc later t0 t1 text ctxs e = (e', r)"
  shows "\<exists>res. r = Inr res \<and> ms res = Some (t1 - t0) \<and>
           ((0 \<le> t1 - t0) = (t0 \<le> t1)) \<and>
           errored res =
             (snd (snd (retry (runner_run cfg (loaded e')) max_tries svc later
                          (initFromText text ctxs))) \<noteq> None)"
proof -
  obtain ds calls outcome where
    run: "retry (runner_run cfg (loaded e')) max_tries svc later (initFromText text ctxs) =
            (ds, calls, outcome)"
    by (rule prod_cases3)
  from extract_unfold [OF call] run show ?thesis
    by (cases outcome) simp_all
qed

text \<open>
  The amended statement at the run of the example on \<^verbatim>\<open>yo\<close>, between the clock readings
  1000 and 1005.
\<close>

theorem extract_result_elapsed_witness:
  "extract' example_config example_sync_env example_nlu_env [] 1000 1005 ''yo'' [] ready_engine =
     (ready_engine, Inr \<lparr> errored = False, ms = Some 5, understanding = Some yo_none_ds \<rparr>) \<and>
   (\<exists>res. Inr \<lparr> errored = False, ms = Some 5, understanding = Some yo_none_ds \<rparr> = Inr res \<and>
      ms res = Some (1005 - 1000) \<and> \<not> errored res)"
  using extract_result_elapsed [OF yo_extract [of 1000 1005]] yo_extract [of 1000 1005]
  by simp

text \<open>The run of the example on \<^verbatim>\<open>yo\<close> when the tokenizer is unavailable at every attempt.\<close>

lemma yo_failing_stages:
  "detectLang example_config failing_env (initFromText ''yo'' []) =
     (initFromText ''yo'' [] \<lparr> detectedLanguage := Some ''en'', language := ''en'' \<rparr>, [Identify], None)"
  "tokenize_stage failing_env
       (initFromText ''yo'' [] \<lparr> detectedLanguage := Some ''en'', language := ''en'' \<rparr>) =
     (yo_partial_ds, [Tokenize], Some (Error ''tokenizer unavailable''))"
  "detectLang example_config failing_env yo_partial_ds = (yo_partial_ds, [Identify], None)"
  "tokenize_stage failing_env yo_partial_ds =
     (yo_partial_ds, [Tokenize], Some (Error ''tokenizer unavailable''))"
  by (simp_all add: stage_defs example_defs failing_env_def yo_partial_ds_def)

lemma yo_failing_run:
  "runner_run example_config example_models failing_env (initFromText ''yo'' []) =
     (yo_partial_ds, [Identify, Tokenize], Some (Error ''tokenizer unavailable''))"
  "runner_run example_config example_models failing_env yo_partial_ds =
     (yo_partial_ds, [Identify, Tokenize], Some (Error ''tokenizer unavailable''))"
  by (simp_all add: runner_run_def pipeline_def yo_failing_stages)

lemma yo_failing_retry:
  "retry (runner_run example_config example_models) max_tries failing_env [failing_env, failing_env]
     (initFromText ''yo'' []) =
     (yo_partial_ds, [Identify, Tokenize, Identify, Tokenize, Identify, Tokenize],
      Some (Error ''tokenizer unavailable''))"
  by (simp add: retry.simps max_tries_def yo_failing_run)

text \<open>
  The claim C8 as stated, that the result of a failed extraction still carries the
  partially populated context, fails: with the tokenizer unavailable at each of the three
  attempts, the context holds the detected language and the lower-cased text when the
  retry gives up, and the result has the fields \<open>errored\<close> and \<open>ms\<close> and no context.
\<close>

theorem failed_extract_counterexample:
  "retry (runner_run example_config (loaded ready_engine)) max_tries failing_env
       [failing_env, failing_env] (initFromText ''yo'' []) =
     (yo_partial_ds, [Identify, Tokenize, Identify, Tokenize, Identify, Tokenize],
      Some (Error ''tokenizer unavailable'')) \<and>
   language yo_partial_ds = ''en'' \<and> lowerText yo_partial_ds = ''yo'' \<and>
   extract' example_config example_sync_env failing_env [failing_env, failing_env] 1000 1005
       ''yo'' [] ready_engine =
     (ready_engine, Inr \<lparr> errored = True, ms = Some 5, understanding = None \<rparr>)"
proof -
  have "language yo_partial_ds = ''en''" "lowerText yo_partial_ds = ''yo''"
    by (simp_all add: yo_partial_ds_def)
  then show ?thesis
    by (simp add: extract'_def Let_def ready_engine_def fresh_engine_def yo_failing_retry)
qed

text \<open>
  C8, amended: for every call of \<open>extract'\<close> in which the retried run gives up with an
  error, the returned result has \<open>errored\<close> set, \<open>ms\<close> set to the difference of the two
  clock readings, and nothing else: no field of the extraction context.
\<close>

theorem failed_extract_result:
  assumes call: "extract' cfg ssvc svc later t0 t1 text ctxs e = (e', r)"
    and failed: "retry (runner_run cfg (loaded e')) max_tries svc later (initFromText text ctxs) =
                   (ds, calls, Some err)"
  shows "r = Inr \<lparr> errored = True, ms = Some (t1 - t0), understanding = None \<rparr>"
  using extract_unfold [OF call] failed by simp

text \<open>The amended statement at the run with the unavailable tokenizer.\<close>

theorem failed_extract_result_witness:
  "retry (runner_run example_config (loaded ready_engine)) max_tries failing_env
       [failing_env, failing_env] (initFromText ''yo'' []) =
     (yo_partial_ds, [Identify, Tokenize, Identify, Tokenize, Identify, Tokenize],
      Some (Error ''tokenizer unavailable'')) \<and>
   snd (extract' example_config example_sync_env failing_env [failing_env, failing_env] 1000 1005
       ''yo'' [] ready_engine) =
     Inr \<lparr> errored = True, ms = Some (1005 - 1000), understanding = None \<rparr>"
proof -
  have pre: "fst (extract' example_config example_sync_env failing_env [failing_env, failing_env]
                1000 1005 ''yo'' [] ready_engine) = ready_engine"
    by (simp add: extract'_def Let_def ready_engine_def fresh_engine_def)
  have run: "retry (runner_run example_config (loaded ready_engine)) max_tries failing_env
       [failing_env, failing_env] (initFromText ''yo'' []) =
     (yo_partial_ds, [Identify, Tokenize, Identify, Tokenize, Identify, Tokenize],
      Some (Error ''tokenizer unavailable''))"
    by (simp add: ready_engine_def fresh_engine_def yo_failing_retry)
  from failed_extract_result [where e' = ready_engine and r = "snd (extract' example_config
      example_sync_env failing_env [failing_env, failing_env] 1000 1005 ''yo'' [] ready_engine)",
      OF _ run] pre run
  show ?thesis by (metis prod.collapse)
qed

section \<open>Sync cycles\<close>

lemmas sync_defs = sync_body_def loadModels_def loadModels_lang_def trainModels_def
  trainModels_lang_def trainSlotTagger_def makeModel_def getTrainingSets_def
  generateTrainingSequenceFromIntent_def getTrainingLanguages_def utterancesOf_def
  utteranceLangs_def MIN_NB_UTTERANCES_def getModelsFromHash_def modelExists_def
  persistModels_def orderBy_desc_def uniq_def uniqBy_def Let_def

lemmas sync_example_defs = example_config_def example_sync_env_def example_intents_def
  empty_models_def trained_models_def example_hash_def

lemma run_append:
  "run cfg e (evs @ evs') =
     (case run cfg e evs of (e1, outs) \<Rightarrow>
        case run cfg e1 evs' of (e2, outs') \<Rightarrow> (e2, outs @ outs'))"
  by (induction evs arbitrary: e) (auto split: prod.splits)

lemma invoke_in_flight:
  "isSyncing e \<Longrightarrow> invoke force e = (e \<lparr> isSyncingTwice := True \<rparr>, Returned None)"
  by (simp add: invoke_def)

lemma invoke_idle:
  "\<not> isSyncing e \<Longrightarrow>
     invoke force e =
       (e \<lparr> isSyncing := True, inflightForce := force, syncCycles := Suc (syncCycles e) \<rparr>, Pending)"
  by (simp add: invoke_def)

lemma run_calls_in_flight:
  "isSyncing e \<Longrightarrow> forces \<noteq> [] \<Longrightarrow>
     run cfg e (map Invoke forces) =
       (e \<lparr> isSyncingTwice := True \<rparr>, replicate (length forces) (Answer (Returned None)))"
proof (induction forces arbitrary: e)
  case Nil
  then show ?case by simp
next
  case (Cons f fs)
  show ?case
  proof (cases "fs = []")
    case True
    with Cons.prems show ?thesis by (simp add: invoke_in_flight)
  next
    case False
    with Cons.prems Cons.IH [of "e \<lparr> isSyncingTwice := True \<rparr>"]
    show ?thesis by (simp add: invoke_in_flight)
  qed
qed

lemma settle_follow_up:
  assumes "isSyncing e" "isSyncingTwice e"
  shows "\<exists>e'. settle cfg svc e = (e', Chained) \<and> isSyncing e' \<and> \<not> isSyncingTwice e' \<and>
           syncCycles e' = Suc (syncCycles e) \<and> inflightForce e' = False"
  using assms
  by (auto simp: settle_def invoke_def Let_def split: prod.splits sum.splits)

lemma settle_last:
  assumes "isSyncing e" "\<not> isSyncingTwice e"
  shows "\<exists>e'. settle cfg svc e = (e', Resolved (currentModelHash e')) \<and> \<not> isSyncing e' \<and>
           \<not> isSyncingTwice e' \<and> syncCycles e' = syncCycles e"
  using assms
  by (auto simp: settle_def invoke_def Let_def split: prod.splits sum.splits)

text \<open>
  C1: from an idle engine, a call of \<open>trainOrLoad\<close> starts a sync cycle. Any number (at
  least one) of further calls made while that cycle is in flight each return at once,
  with undefined, and start no cycle: the count of cycles stays at one more than before.
  When the cycle in flight ends, exactly one follow-up cycle starts, and when that one
  ends the engine is idle again with no request pending: two cycles in all, whatever the
  number of calls.
\<close>

theorem coalescing:
  assumes idle: "\<not> isSyncing e" "\<not> isSyncingTwice e"
    and calls: "forces \<noteq> []"
  shows "case run cfg e (Invoke force # map Invoke forces) of (e1, outs1) \<Rightarrow>
           outs1 = Answer Pending # replicate (length forces) (Answer (Returned None)) \<and>
           syncCycles e1 = syncCycles e + 1 \<and>
           (case run cfg e1 [Settle svc, Settle svc'] of (e2, outs2) \<Rightarrow>
              outs2 = [Settled Chained, Settled (Resolved (currentModelHash e2))] \<and>
              syncCycles e2 = syncCycles e + 2 \<and> \<not> isSyncing e2 \<and> \<not> isSyncingTwice e2)"
proof -
  define e0 where
    "e0 = e \<lparr> isSyncing := True, inflightForce := force, syncCycles := Suc (syncCycles e) \<rparr>"
  have first: "invoke force e = (e0, Pending)"
    using idle by (simp add: invoke_idle e0_def)
  have flight: "isSyncing e0" by (simp add: e0_def)
  define e1 where "e1 = e0 \<lparr> isSyncingTwice := True \<rparr>"
  have more: "run cfg e0 (map Invoke forces) =
                (e1, replicate (length forces) (Answer (Returned None)))"
    using run_calls_in_flight [OF flight calls] by (simp add: e1_def)
  have e1: "isSyncing e1" "isSyncingTwice e1" "syncCycles e1 = syncCycles e + 1"
    by (simp_all add: e1_def e0_def)
  obtain e2 where two: "settle cfg svc e1 = (e2, Chained)" "isSyncing e2" "\<not> isSyncingTwice e2"
      "syncCycles e2 = Suc (syncCycles e1)"
    using settle_follow_up [OF e1(1,2)] by blast
  obtain e3 where three: "settle cfg svc' e2 = (e3, Resolved (currentModelHash e3))"
      "\<not> isSyncing e3" "\<not> isSyncingTwice e3" "syncCycles e3 = syncCycles e2"
    using settle_last [OF two(2,3)] by blast
  show ?thesis
    using first more e1 two three by simp
qed

text \<open>The first sync of the example engine, from the empty store, and the one after it.\<close>

lemma example_languages: "getTrainingLanguages example_intents = [''en'']"
  by (simp add: sync_defs sync_example_defs)

lemma example_training_set:
  "getTrainingSets example_sync_env example_intents ''en'' = Inr [JStr ''hi'', JStr ''hey'', JStr ''yo'']"
  by (simp add: sync_defs sync_example_defs)

lemma example_load_empty:
  "loadModels example_config example_sync_env example_intents example_hash empty_models =
     (empty_models, Some (Error ''Could not find skipgram model for slot tagging''))"
  by (simp add: loadModels_def example_languages loadModels_lang_def getModelsFromHash_def empty_models_def)

lemma example_train:
  "trainModels example_config example_sync_env example_intents example_hash empty_models = trained_store"
  by (simp add: sync_defs sync_example_defs trained_store_def)


lemma example_env_fields:
  "MODEL_TYPES_INTENT example_sync_env = [''intent'']"
  "MODEL_TYPES_SLOT_LANG example_sync_env = ''slot-language''"
  "MODEL_TYPES_SLOT_CRF example_sync_env = ''slot-crf''"
  "classifier_load example_sync_env = (\<lambda>lang ms. None)"
  "slot_load example_sync_env = (\<lambda>lang trainingSet lm crf. None)"
  by (simp_all add: example_sync_env_def)

lemma example_reload:
  "loadModels example_config example_sync_env example_intents example_hash trained_store =
     (trained_models, None)"
  by (simp add: loadModels_def example_languages loadModels_lang_def example_training_set
        getModelsFromHash_def orderBy_desc_def uniqBy_def Let_def trained_store_def trained_models_def
        empty_models_def example_config_def example_env_fields)

lemma example_load_again:
  "loadModels example_config example_sync_env example_intents example_hash trained_models =
     (trained_models, None)"
  by (simp add: loadModels_def example_languages loadModels_lang_def example_training_set
        getModelsFromHash_def orderBy_desc_def uniqBy_def Let_def trained_models_def
        example_config_def example_env_fields)

lemma example_env_facts:
  "getIntents example_sync_env = Inr example_intents"
  "languages example_config = [''en'']"
  "computeModelHash example_intents = example_hash"
  by (simp_all add: example_sync_env_def example_config_def example_hash_def)

lemma example_first_sync:
  "sync_body example_config example_sync_env False empty_models =
     (trained_models,
      [GetIntents, LoadModels example_hash, TrainModels example_hash, LoadModels example_hash],
      Inr example_hash)"
  by (simp add: sync_body_def example_env_facts example_load_empty example_train example_reload)

lemma example_second_sync:
  "sync_body example_config example_sync_env False trained_models =
     (trained_models, [GetIntents, LoadModels example_hash], Inr example_hash)"
  by (simp add: sync_body_def example_env_facts example_load_again)

lemma example_calls:
  "run example_config fresh_engine [Invoke False, Invoke False, Invoke True] =
     (in_flight_engine, [Answer Pending, Answer (Returned None), Answer (Returned None)])"
  by (simp add: invoke_def fresh_engine_def in_flight_engine_def)

lemma example_settle_first:
  "settle example_config example_sync_env in_flight_engine = (follow_up_engine, Chained)"
proof -
  have "loaded in_flight_engine = empty_models" "inflightForce in_flight_engine = False"
       "isSyncing in_flight_engine" "isSyncingTwice in_flight_engine"
    by (simp_all add: in_flight_engine_def fresh_engine_def)
  then show ?thesis
    by (simp add: settle_def example_first_sync invoke_def)
       (simp add: in_flight_engine_def follow_up_engine_def fresh_engine_def)
qed

lemma example_settle_second:
  "settle example_config example_sync_env follow_up_engine =
     (synced_engine, Resolved (Some example_hash))"
proof -
  have "loaded follow_up_engine = trained_models" "inflightForce follow_up_engine = False"
       "isSyncing follow_up_engine" "\<not> isSyncingTwice follow_up_engine"
    by (simp_all add: follow_up_engine_def fresh_engine_def)
  then show ?thesis
    by (simp add: settle_def example_second_sync)
       (simp add: synced_engine_def follow_up_engine_def fresh_engine_def)
qed

lemma example_settles:
  "run example_config in_flight_engine [Settle example_sync_env, Settle example_sync_env] =
     (synced_engine, [Settled Chained, Settled (Resolved (Some example_hash))])"
  by (simp add: example_settle_first example_settle_second)

text \<open>
  The theorem at the example engine: a call, then two more while the first cycle is in
  flight (one of them forcing a retrain), then the end of the first cycle and the end of
  the follow-up. Two cycles have run, and the engine is idle.
\<close>

theorem coalescing_witness:
  "\<not> isSyncing fresh_engine \<and> \<not> isSyncingTwice fresh_engine \<and>
   run example_config fresh_engine [Invoke False, Invoke False, Invoke True] =
     (in_flight_engine, [Answer Pending, Answer (Returned None), Answer (Returned None)]) \<and>
   syncCycles in_flight_engine = syncCycles fresh_engine + 1 \<and>
   run example_config in_flight_engine [Settle example_sync_env, Settle example_sync_env] =
     (synced_engine, [Settled Chained, Settled (Resolved (currentModelHash synced_engine))]) \<and>
   syncCycles synced_engine = syncCycles fresh_engine + 2 \<and>
   \<not> isSyncing synced_engine \<and> \<not> isSyncingTwice synced_engine"
proof -
  have idle: "\<not> isSyncing fresh_engine" "\<not> isSyncingTwice fresh_engine"
    by (simp_all add: fresh_engine_def)
  from coalescing [where e = fresh_engine and forces = "[False, True]" and force = False
      and cfg = example_config and svc = example_sync_env and svc' = example_sync_env, OF idle]
    example_calls example_settles idle
  show ?thesis by simp
qed

text \<open>
  C9 at a call that arrives while a cycle is in flight, on an engine whose current hash
  is \<^verbatim>\<open>abc\<close>: the call returns undefined, not the hash.
\<close>

theorem trainOrLoad_in_flight_returns_undefined:
  "currentModelHash syncing_engine = Some ''abc'' \<and>
   trainOrLoad example_config example_sync_env False syncing_engine =
     (syncing_engine \<lparr> isSyncingTwice := True \<rparr>, None)"
  by (simp add: trainOrLoad_def invoke_def syncing_engine_def fresh_engine_def)

text \<open>
  C6 at a cycle without \<open>forceRetrain\<close> over the empty Model Store: no artifact exists
  for the hash in the configured language, and the cycle still attempts the load first
  (which fails), then trains and reloads.
\<close>

theorem load_attempted_without_artifacts:
  "\<not> modelExists (store empty_models) example_hash ''en'' \<and>
   languages example_config = [''en''] \<and>
   sync_body example_config example_sync_env False empty_models =
     (trained_models,
      [GetIntents, LoadModels example_hash, TrainModels example_hash, LoadModels example_hash],
      Inr example_hash)"
  by (simp add: example_first_sync example_env_facts)
     (simp add: modelExists_def getModelsFromHash_def empty_models_def)

section \<open>The model hash\<close>

subsection \<open>The serialisation determines the value\<close>

lemma digit_nth: "n < 10 \<Longrightarrow> is_digit (''0123456789'' ! n)"
  unfolding is_digit_def by (rule nth_mem) simp

lemma digit_inj:
  "a < 10 \<Longrightarrow> b < 10 \<Longrightarrow> (''0123456789'' ! a = ''0123456789'' ! b) = (a = b)"
  by (rule nth_eq_iff_index_eq) simp_all

lemma string_of_nat_digits: "string_of_nat n \<noteq> [] \<and> (\<forall>c \<in> set (string_of_nat n). is_digit c)"
proof (induction n rule: string_of_nat.induct)
  case (1 n)
  show ?case
  proof (cases "n < 10")
    case True
    then show ?thesis by (simp add: string_of_nat.simps [of n] digit_nth)
  next
    case False
    with 1 show ?thesis by (simp add: string_of_nat.simps [of n] digit_nth)
  qed
qed

lemma string_of_nat_length: "\<not> n < 10 \<Longrightarrow> 2 \<le> length (string_of_nat n)"
  using string_of_nat_digits [of "n div 10"]
  by (cases "string_of_nat (n div 10)") (simp_all add: string_of_nat.simps [of n])

lemma string_of_nat_inj: "string_of_nat n = string_of_nat m \<Longrightarrow> n = m"
proof (induction n arbitrary: m rule: string_of_nat.induct)
  case (1 n)
  show ?case
  proof (cases "n < 10")
    case small: True
    show ?thesis
    proof (cases "m < 10")
      case True
      with small "1.prems" show ?thesis
        by (simp add: string_of_nat.simps [of n] string_of_nat.simps [of m] digit_inj)
    next
      case False
      from small have "length (string_of_nat n) = 1"
        by (simp add: string_of_nat.simps [of n])
      with string_of_nat_length [OF False] "1.prems" show ?thesis by simp
    qed
  next
    case big: False
    show ?thesis
    proof (cases "m < 10")
      case True
      from True have "length (string_of_nat m) = 1"
        by (simp add: string_of_nat.simps [of m])
      with string_of_nat_length [OF big] "1.prems" show ?thesis by simp
    next
      case False
      with big "1.prems"
      have eq: "string_of_nat (n div 10) = string_of_nat (m div 10)"
        and last: "''0123456789'' ! (n mod 10) = ''0123456789'' ! (m mod 10)"
        by (simp_all add: string_of_nat.simps [of n] string_of_nat.simps [of m])
      from "1.IH" [OF big eq] have "n div 10 = m div 10" .
      moreover from last have "n mod 10 = m mod 10" by (simp add: digit_inj)
      ultimately show ?thesis by (metis div_mult_mod_eq)
    qed
  qed
qed

lemma closes_no_digit: "closes r \<Longrightarrow> takeWhile is_digit r = [] \<and> dropWhile is_digit r = r"
  by (cases r) (auto simp: closes_def is_digit_def)

lemma closes_takeWhile:
  assumes "\<forall>c \<in> set ds. is_digit c" "closes r"
  shows "takeWhile is_digit (ds @ r) = ds" "dropWhile is_digit (ds @ r) = r"
proof -
  from assms(1) have "takeWhile is_digit (ds @ r) = ds @ takeWhile is_digit r"
    by (simp add: takeWhile_append2)
  with closes_no_digit [OF assms(2)] show "takeWhile is_digit (ds @ r) = ds" by simp
  from assms(1) have "dropWhile is_digit (ds @ r) = dropWhile is_digit r"
    by (simp add: dropWhile_append2)
  with closes_no_digit [OF assms(2)] show "dropWhile is_digit (ds @ r) = r" by simp
qed

lemma string_of_nat_cancel:
  assumes "string_of_nat n @ r = string_of_nat m @ r'" "closes r" "closes r'"
  shows "n = m \<and> r = r'"
proof -
  have n: "takeWhile is_digit (string_of_nat n @ r) = string_of_nat n"
    "dropWhile is_digit (string_of_nat n @ r) = r"
    using closes_takeWhile [of "string_of_nat n" r] string_of_nat_digits assms(2) by simp_all
  have m: "takeWhile is_digit (string_of_nat m @ r') = string_of_nat m"
    "dropWhile is_digit (string_of_nat m @ r') = r'"
    using closes_takeWhile [of "string_of_nat m" r'] string_of_nat_digits assms(3) by simp_all
  from n m assms(1) have "string_of_nat n = string_of_nat m" "r = r'" by simp_all
  then show ?thesis by (simp add: string_of_nat_inj)
qed

lemma string_of_nat_hd: "\<exists>c cs. string_of_nat n = c # cs \<and> is_digit c"
  using string_of_nat_digits [of n] by (cases "string_of_nat n") auto

lemma string_of_int_cancel:
  assumes "string_of_int i @ r = string_of_int j @ r'" "closes r" "closes r'"
  shows "i = j \<and> r = r'"
proof -
  have minus: "\<not> is_digit CHR ''-''" by (simp add: is_digit_def)
  obtain c cs where a: "string_of_nat (nat i) = c # cs" "is_digit c"
    using string_of_nat_hd by blast
  obtain d ds where b: "string_of_nat (nat j) = d # ds" "is_digit d"
    using string_of_nat_hd by blast
  show ?thesis
  proof (cases "i < 0")
    case ineg: True
    show ?thesis
    proof (cases "j < 0")
      case True
      with ineg assms string_of_nat_cancel [of "nat (- i)" r "nat (- j)" r'] show ?thesis
        by (auto simp: string_of_int_def)
    next
      case False
      with ineg assms b minus show ?thesis by (auto simp: string_of_int_def)
    qed
  next
    case ipos: False
    show ?thesis
    proof (cases "j < 0")
      case True
      with ipos assms a minus show ?thesis by (auto simp: string_of_int_def)
    next
      case False
      with ipos assms string_of_nat_cancel [of "nat i" r "nat j" r'] show ?thesis
        by (auto simp: string_of_int_def)
    qed
  qed
qed

lemma hex_digit_inj:
  "a < 16 \<Longrightarrow> b < 16 \<Longrightarrow> (hex_digit a = hex_digit b) = (a = b)"
  unfolding hex_digit_def by (rule nth_eq_iff_index_eq) simp_all

lemma hex_byte_inj:
  assumes "n < 256" "m < 256" "hex_byte n = hex_byte m"
  shows "n = m"
proof -
  from assms have "n div 16 < 16" "m div 16 < 16" "n mod 16 < 16" "m mod 16 < 16" by simp_all
  with assms(3) have "n div 16 = m div 16" "n mod 16 = m mod 16"
    by (simp_all add: hex_byte_def hex_digit_inj)
  then show ?thesis by (metis div_mult_mod_eq)
qed

lemma char_eqI: "of_char c = (n::nat) \<Longrightarrow> of_char d = n \<Longrightarrow> c = d"
  using of_char_eq_iff [of c d, where 'a = nat] by simp

lemma escape_char_shape:
  "(of_char c = (34::nat) \<and> escape_char c = [CHR 0x5C, CHR 0x22]) \<or>
   (of_char c = (92::nat) \<and> escape_char c = [CHR 0x5C, CHR 0x5C]) \<or>
   (of_char c = (8::nat) \<and> escape_char c = [CHR 0x5C, CHR ''b'']) \<or>
   (of_char c = (9::nat) \<and> escape_char c = [CHR 0x5C, CHR ''t'']) \<or>
   (of_char c = (10::nat) \<and> escape_char c = [CHR 0x5C, CHR ''n'']) \<or>
   (of_char c = (12::nat) \<and> escape_char c = [CHR 0x5C, CHR ''f'']) \<or>
   (of_char c = (13::nat) \<and> escape_char c = [CHR 0x5C, CHR ''r'']) \<or>
   (escape_char c = [CHR 0x5C, CHR ''u'', CHR ''0'', CHR ''0''] @ hex_byte (of_char c)) \<or>
   (of_char c \<noteq> (34::nat) \<and> of_char c \<noteq> (92::nat) \<and> escape_char c = [c])"
  by (simp add: escape_char_def Let_def)

lemma escape_char_cases:
  obtains
    (quote) "of_char c = (34::nat)" "escape_char c = [CHR 0x5C, CHR 0x22]"
  | (backslash) "of_char c = (92::nat)" "escape_char c = [CHR 0x5C, CHR 0x5C]"
  | (b) "of_char c = (8::nat)" "escape_char c = [CHR 0x5C, CHR ''b'']"
  | (t) "of_char c = (9::nat)" "escape_char c = [CHR 0x5C, CHR ''t'']"
  | (n) "of_char c = (10::nat)" "escape_char c = [CHR 0x5C, CHR ''n'']"
  | (f) "of_char c = (12::nat)" "escape_char c = [CHR 0x5C, CHR ''f'']"
  | (r) "of_char c = (13::nat)" "escape_char c = [CHR 0x5C, CHR ''r'']"
  | (u) "escape_char c = [CHR 0x5C, CHR ''u'', CHR ''0'', CHR ''0''] @ hex_byte (of_char c)"
  | (plain) "of_char c \<noteq> (34::nat)" "of_char c \<noteq> (92::nat)" "escape_char c = [c]"
  using escape_char_shape [of c] by blast

lemma hex_byte_append:
  "(hex_byte a @ x = hex_byte b @ y) = (hex_byte a = hex_byte b \<and> x = y)"
  by (simp add: hex_byte_def)

lemma hex_byte_char_inj: "hex_byte (of_char c) = hex_byte (of_char d) \<Longrightarrow> c = d"
  using hex_byte_inj [of "of_char c" "of_char d"] by simp

lemma escape_char_inj:
  assumes "escape_char c @ x = escape_char d @ y"
  shows "c = d \<and> x = y"
proof -
  have bound: "(of_char c :: nat) < 256" "(of_char d :: nat) < 256" by simp_all
  show ?thesis
    using assms bound
    by (cases c rule: escape_char_cases; cases d rule: escape_char_cases)
       (auto simp: hex_byte_append dest: char_eqI hex_byte_char_inj)
qed

lemma escape_char_head:
  "\<exists>e rest. escape_char c = e # rest \<and> e \<noteq> CHR 0x22"
  by (cases c rule: escape_char_cases) auto

lemma escape_cancel:
  "concat (map escape_char s) @ CHR 0x22 # r = concat (map escape_char t) @ CHR 0x22 # r' \<Longrightarrow>
     s = t \<and> r = r'"
proof (induction s arbitrary: t)
  case Nil
  show ?case
  proof (cases t)
    case Nil
    with Nil.prems show ?thesis by simp
  next
    case (Cons d t')
    with Nil.prems escape_char_head [of d] show ?thesis by auto
  qed
next
  case (Cons c s')
  show ?case
  proof (cases t)
    case Nil
    with Cons.prems escape_char_head [of c] show ?thesis by auto
  next
    case (Cons d t')
    with Cons.prems
    have "escape_char c @ (concat (map escape_char s') @ CHR 0x22 # r) =
          escape_char d @ (concat (map escape_char t') @ CHR 0x22 # r')"
      by simp
    from escape_char_inj [OF this] Cons.IH [of t'] Cons show ?thesis by simp
  qed
qed

lemma quote_cancel: "quote s @ r = quote t @ r' \<Longrightarrow> s = t \<and> r = r'"
  using escape_cancel [of s r t r'] by (simp add: quote_def)

lemma string_of_int_kind: "\<exists>c cs. string_of_int i = c # cs \<and> kind c = 2"
proof -
  obtain c cs where "string_of_nat (nat i) = c # cs" "is_digit c"
    using string_of_nat_hd by blast
  moreover have "is_digit c \<Longrightarrow> kind c = 2" for c
    by (auto simp: kind_def is_digit_def)
  moreover have "kind CHR ''-'' = 2" by (simp add: kind_def is_digit_def)
  ultimately show ?thesis by (simp add: string_of_int_def)
qed

lemma stringify_kind: "\<exists>c cs. stringify v = c # cs \<and> kind c = tag v"
proof (cases v)
  case (JNum i)
  with string_of_int_kind [of i] show ?thesis by simp
qed (simp_all add: kind_def is_digit_def quote_def)

lemma stringify_tag:
  assumes "stringify v @ r = stringify w @ r'"
  shows "tag v = tag w"
proof -
  obtain c cs where v: "stringify v = c # cs" "kind c = tag v" using stringify_kind by blast
  obtain d ds where w: "stringify w = d # ds" "kind d = tag w" using stringify_kind by blast
  from assms v w show ?thesis by simp
qed

lemma commas_Cons:
  "commas (a # as) @ t = a @ (if as = [] then t else CHR '','' # commas as @ t)"
  by (cases as) simp_all

lemma commas_cancel:
  fixes f :: "'a \<Rightarrow> string"
  assumes item: "\<And>x y t t'. x \<in> set xs \<Longrightarrow> f x @ t = f y @ t' \<Longrightarrow> closes t \<Longrightarrow> closes t' \<Longrightarrow>
                   x = y \<and> t = t'"
    and head: "\<And>y. \<exists>c cs. f y = c # cs \<and> c \<noteq> cl \<and> c \<noteq> CHR '',''"
    and cl: "cl = CHR '']'' \<or> cl = CHR ''}''"
    and eq: "commas (map f xs) @ cl # r = commas (map f ys) @ cl # r'"
  shows "xs = ys \<and> r = r'"
  using item eq
proof (induction xs arbitrary: ys)
  case Nil
  show ?case
  proof (cases ys)
    case Nil
    with Nil.prems show ?thesis by simp
  next
    case (Cons y ys')
    with Nil.prems(2) head [of y] show ?thesis by (auto simp: commas_Cons)
  qed
next
  case (Cons x xs')
  show ?case
  proof (cases ys)
    case Nil
    with Cons.prems(2) head [of x] show ?thesis by (auto simp: commas_Cons)
  next
    case ys: (Cons y ys')
    define T where "T = (if xs' = [] then cl # r else CHR '','' # commas (map f xs') @ cl # r)"
    define T' where "T' = (if ys' = [] then cl # r' else CHR '','' # commas (map f ys') @ cl # r')"
    from Cons.prems(2) ys have "f x @ T = f y @ T'"
      by (simp add: commas_Cons T_def T'_def)
    moreover have "closes T" "closes T'" using cl by (auto simp: T_def T'_def closes_def)
    ultimately have xy: "x = y" and TT: "T = T'"
      using Cons.prems(1) [of x T y T'] by simp_all
    show ?thesis
    proof (cases "xs' = []")
      case True
      with TT cl xy ys show ?thesis by (auto simp: T_def T'_def split: if_splits)
    next
      case False
      with TT cl have ne: "ys' \<noteq> []"
        and rest: "commas (map f xs') @ cl # r = commas (map f ys') @ cl # r'"
        by (auto simp: T_def T'_def split: if_splits)
      have "xs' = ys' \<and> r = r'"
      proof (rule Cons.IH [OF _ rest])
        fix a b t t'
        assume "a \<in> set xs'" "f a @ t = f b @ t'" "closes t" "closes t'"
        then show "a = b \<and> t = t'" using Cons.prems(1) [of a t b t'] by simp
      qed
      with xy ys show ?thesis by simp
    qed
  qed
qed

lemma stringify_cancel:
  "stringify v @ r = stringify w @ r' \<Longrightarrow> closes r \<Longrightarrow> closes r' \<Longrightarrow> v = w \<and> r = r'"
proof (induction v arbitrary: w r r')
  case JNull
  from stringify_tag [OF JNull.prems(1)] have "w = JNull" by (cases w) simp_all
  with JNull.prems(1) show ?case by simp
next
  case (JBool b)
  from stringify_tag [OF JBool.prems(1)] obtain b' where "w = JBool b'" by (cases w) simp_all
  with JBool.prems(1) show ?case by (cases b; cases b'; simp)
next
  case (JNum i)
  from stringify_tag [OF JNum.prems(1)] obtain j where w: "w = JNum j" by (cases w) simp_all
  with JNum.prems have "string_of_int i @ r = string_of_int j @ r'" by simp
  from string_of_int_cancel [OF this JNum.prems(2,3)] w show ?case by simp
next
  case (JStr s)
  from stringify_tag [OF JStr.prems(1)] obtain s' where w: "w = JStr s'" by (cases w) simp_all
  with JStr.prems have "quote s @ r = quote s' @ r'" by simp
  from quote_cancel [OF this] w show ?case by simp
next
  case (JArr xs)
  from stringify_tag [OF JArr.prems(1)] obtain ys where w: "w = JArr ys" by (cases w) simp_all
  have "xs = ys \<and> r = r'"
  proof (rule commas_cancel [where f = stringify and cl = "CHR '']''"])
    fix x y t t'
    assume "x \<in> set xs" "stringify x @ t = stringify y @ t'" "closes t" "closes t'"
    then show "x = y \<and> t = t'" by (rule JArr.IH)
  next
    fix y
    obtain c cs where c: "stringify y = c # cs" "kind c = tag y" using stringify_kind by blast
    have "tag y < 6" by (cases y) simp_all
    with c have "c \<noteq> CHR '']'' \<and> c \<noteq> CHR '',''" by (auto simp: kind_def is_digit_def)
    with c show "\<exists>c cs. stringify y = c # cs \<and> c \<noteq> CHR '']'' \<and> c \<noteq> CHR '',''" by simp
  next
    show "CHR '']'' = CHR '']'' \<or> CHR '']'' = CHR ''}''" by simp
  next
    from JArr.prems(1) w
    show "commas (map stringify xs) @ CHR '']'' # r = commas (map stringify ys) @ CHR '']'' # r'"
      by simp
  qed
  with w show ?case by simp
next
  case (JObj kvs)
  from stringify_tag [OF JObj.prems(1)] obtain kvs' where w: "w = JObj kvs'" by (cases w) simp_all
  let ?f = "\<lambda>kv. quote (fst kv) @ CHR '':'' # stringify (snd kv)"
  have "kvs = kvs' \<and> r = r'"
  proof (rule commas_cancel [where f = ?f and cl = "CHR ''}''"])
    fix x y t t'
    assume x: "x \<in> set kvs" and eq: "?f x @ t = ?f y @ t'" and t: "closes t" "closes t'"
    from eq have "quote (fst x) @ (CHR '':'' # stringify (snd x) @ t) =
                  quote (fst y) @ (CHR '':'' # stringify (snd y) @ t')"
      by simp
    from quote_cancel [OF this]
    have k: "fst x = fst y" and v: "stringify (snd x) @ t = stringify (snd y) @ t'" by simp_all
    have "snd x \<in> Basic_BNFs.snds x" by (cases x) simp
    from JObj.IH [OF x this v t] k show "x = y \<and> t = t'" by (simp add: prod_eq_iff)
  next
    fix y :: "string \<times> json"
    show "\<exists>c cs. ?f y = c # cs \<and> c \<noteq> CHR ''}'' \<and> c \<noteq> CHR '',''"
      by (simp add: quote_def)
  next
    show "CHR ''}'' = CHR '']'' \<or> CHR ''}'' = CHR ''}''" by simp
  next
    from JObj.prems(1) w
    show "commas (map ?f kvs) @ CHR ''}'' # r = commas (map ?f kvs') @ CHR ''}'' # r'"
      by simp
  qed
  with w show ?case by simp
qed

lemma stringify_inj: "(stringify v = stringify w) = (v = w)"
  using stringify_cancel [of v "[]" w "[]"] by (auto simp: closes_def)

subsection \<open>Two digests\<close>

text \<open>The digests of the two serialisations, eight rounds of the block at a time.\<close>

lemma replicate_rec: "replicate n x = (if n = 0 then [] else x # replicate (n - 1) x)"
  by (cases n) simp_all

lemma md5_blocks_Nil: "md5_blocks st [] = st"
  by (subst md5_blocks.simps) simp

lemma foldl_rounds_chunks:
  "foldl f s [0..<64] =
     foldl f (foldl f (foldl f (foldl f (foldl f (foldl f (foldl f (foldl f s
       [0..<8]) [8..<16]) [16..<24]) [24..<32]) [32..<40]) [40..<48]) [48..<56]) [56..<64]"
proof -
  have split: "[i..<k] = [i..<j] @ [j..<k]" if "i \<le> j" "j \<le> k" for i j k :: nat
    using that upt_add_eq_append [of i j "k - j"] by simp
  have "[0..<64] =
          [0..<8] @ [8..<16] @ [16..<24] @ [24..<32] @ [32..<40] @ [40..<48] @ [48..<56] @
          [56..<64]"
    by (simp only: split [of 0 8 64] split [of 8 16 64] split [of 16 24 64] split [of 24 32 64]
          split [of 32 40 64] split [of 40 48 64] split [of 48 56 64])
  then show ?thesis by (simp only: foldl_append)
qed

lemma name_first_words:
  "md5_words (md5_pad (map of_char (stringify (JArr name_first)))) = name_first_block"
  by (simp add: name_first_def name_first_block_def quote_def escape_char_def md5_pad_def
        replicate_rec le_bytes.simps)

lemma name_first_rounds_0:
  "foldl (md5_round name_first_block) (0x67452301, 0xefcdab89, 0x98badcfe, 0x10325476) [0..<8] =
     (0x1060f04d, 0xb1ff3a3b, 0x8e668caf, 0x5308a10f)"
  by (simp add: upt_rec name_first_block_def md5_round_def md5_K_def md5_s_def rotl32_def
        Let_def)

lemma name_first_rounds_1:
  "foldl (md5_round name_first_block) (0x1060f04d, 0xb1ff3a3b, 0x8e668caf, 0x5308a10f) [8..<16] =
     (0xc5a93e51, 0xbda660a7, 0xce303a14, 0x4e04aac2)"
  by (simp add: upt_rec name_first_block_def md5_round_def md5_K_def md5_s_def rotl32_def
        Let_def)

lemma name_first_rounds_2:
  "foldl (md5_round name_first_block) (0xc5a93e51, 0xbda660a7, 0xce303a14, 0x4e04aac2) [16..<24] =
     (0xf1f7f419, 0xba887f50, 0x9a3bebf1, 0xe2df4136)"
  by (simp add: upt_rec name_first_block_def md5_round_def md5_K_def md5_s_def rotl32_def
        Let_def)

lemma name_first_rounds_3:
  "foldl (md5_round name_first_block) (0xf1f7f419, 0xba887f50, 0x9a3bebf1, 0xe2df4136) [24..<32] =
     (0xb232132e, 0x1bb5e80d, 0x05438ec6, 0xaa0baa68)"
  by (simp add: upt_rec name_first_block_def md5_round_def md5_K_def md5_s_def rotl32_def
        Let_def)

lemma name_first_rounds_4:
  "foldl (md5_round name_first_block) (0xb232132e, 0x1bb5e80d, 0x05438ec6, 0xaa0baa68) [32..<40] =
     (0x359b7eaf, 0xf4ecac9a, 0x04a01aa7, 0x689cef03)"
  by (simp add: upt_rec name_first_block_def md5_round_def md5_K_def md5_s_def rotl32_def
        Let_def)

lemma name_first_rounds_5:
  "foldl (md5_round name_first_block) (0x359b7eaf, 0xf4ecac9a, 0x04a01aa7, 0x689cef03) [40..<48] =
     (0x107437e1, 0x51b8beed, 0xe92d33eb, 0x81c15f59)"
  by (simp add: upt_rec name_first_block_def md5_round_def md5_K_def md5_s_def rotl32_def
        Let_def)

lemma name_first_rounds_6:
  "foldl (md5_round name_first_block) (0x107437e1, 0x51b8beed, 0xe92d33eb, 0x81c15f59) [48..<56] =
     (0x82c1c0a6, 0x6471fdc3, 0xfe35c263, 0x4776dd93)"
  by (simp add: upt_rec name_first_block_def md5_round_def md5_K_def md5_s_def rotl32_def
        Let_def)

lemma name_first_rounds_7:
  "foldl (md5_round name_first_block) (0x82c1c0a6, 0x6471fdc3, 0xfe35c263, 0x4776dd93) [56..<64] =
     (0x9598ec02, 0x2e61913c, 0x463369d3, 0xbba3df10)"
  by (simp add: upt_rec name_first_block_def md5_round_def md5_K_def md5_s_def rotl32_def
        Let_def)

lemma name_first_md5_block:
  "md5_block (0x67452301, 0xefcdab89, 0x98badcfe, 0x10325476) name_first_block =
     (0xfcde0f03, 0x1e2f3cc5, 0xdeee46d1, 0xcbd63386)"
  by (simp only: md5_block_def foldl_rounds_chunks
        name_first_rounds_0 name_first_rounds_1 name_first_rounds_2 name_first_rounds_3
        name_first_rounds_4 name_first_rounds_5 name_first_rounds_6 name_first_rounds_7)
     simp

lemma name_first_md5:
  "md5_hex (stringify (JArr name_first)) = ''030fdefcc53c2f1ed146eede8633d6cb''"
proof -
  have "md5_blocks (0x67452301, 0xefcdab89, 0x98badcfe, 0x10325476) name_first_block =
          md5_blocks (md5_block (0x67452301, 0xefcdab89, 0x98badcfe, 0x10325476)
                        name_first_block) []"
    by (subst md5_blocks.simps) (simp add: name_first_block_def)
  then have blocks: "md5_blocks (0x67452301, 0xefcdab89, 0x98badcfe, 0x10325476) name_first_block =
          (0xfcde0f03, 0x1e2f3cc5, 0xdeee46d1, 0xcbd63386)"
    by (simp add: name_first_md5_block md5_blocks_Nil)
  show ?thesis
    unfolding md5_hex_def name_first_words blocks
    by (simp add: hex_le32_def le_bytes.simps hex_byte_def hex_digit_def)
qed

lemma contexts_first_words:
  "md5_words (md5_pad (map of_char (stringify (JArr contexts_first)))) = contexts_first_block"
  by (simp add: contexts_first_def contexts_first_block_def quote_def escape_char_def md5_pad_def
        replicate_rec le_bytes.simps)

lemma contexts_first_rounds_0:
  "foldl (md5_round contexts_first_block) (0x67452301, 0xefcdab89, 0x98badcfe, 0x10325476) [0..<8] =
     (0x33b885e3, 0x91f60d2b, 0xe5ab29bf, 0xa5c63e17)"
  by (simp add: upt_rec contexts_first_block_def md5_round_def md5_K_def md5_s_def rotl32_def
        Let_def)

lemma contexts_first_rounds_1:
  "foldl (md5_round contexts_first_block) (0x33b885e3, 0x91f60d2b, 0xe5ab29bf, 0xa5c63e17) [8..<16] =
     (0xad7f4ff5, 0x44b63347, 0x782ca49b, 0x14f1da99)"
  by (simp add: upt_rec contexts_first_block_def md5_round_def md5_K_def md5_s_def rotl32_def
        Let_def)

lemma contexts_first_rounds_2:
  "foldl (md5_round contexts_first_block) (0xad7f4ff5, 0x44b63347, 0x782ca49b, 0x14f1da99) [16..<24] =
     (0x5b39d920, 0x82f515f1, 0x5c89d53e, 0xc41c2f4f)"
  by (simp add: upt_rec contexts_first_block_def md5_round_def md5_K_def md5_s_def rotl32_def
        Let_def)

lemma contexts_first_rounds_3:
  "foldl (md5_round contexts_first_block) (0x5b39d920, 0x82f515f1, 0x5c89d53e, 0xc41c2f4f) [24..<32] =
     (0xee197be1, 0x4466571b, 0x8c27af70, 0x03bc4b4e)"
  by (simp add: upt_rec contexts_first_block_def md5_round_def md5_K_def md5_s_def rotl32_def
        Let_def)

lemma contexts_first_rounds_4:
  "foldl (md5_round contexts_first_block) (0xee197be1, 0x4466571b, 0x8c27af70, 0x03bc4b4e) [32..<40] =
     (0xef122b51, 0xf066d0c4, 0x968cff31, 0x5306cbcb)"
  by (simp add: upt_rec contexts_first_block_def md5_round_def md5_K_def md5_s_def rotl32_def
        Let_def)

lemma contexts_first_rounds_5:
  "foldl (md5_round contexts_first_block) (0xef122b51, 0xf066d0c4, 0x968cff31, 0x5306cbcb) [40..<48] =
     (0x3675dec6, 0x115e5545, 0x8d8c99fc, 0x39c7290e)"
  by (simp add: upt_rec contexts_first_block_def md5_round_def md5_K_def md5_s_def rotl32_def
        Let_def)

lemma contexts_first_rounds_6:
  "foldl (md5_round contexts_first_block) (0x3675dec6, 0x115e5545, 0x8d8c99fc, 0x39c7290e) [48..<56] =
     (0x23a30b24, 0xc834e855, 0x18af5457, 0x6c70dcc2)"
  by (simp add: upt_rec contexts_first_block_def md5_round_def md5_K_def md5_s_def rotl32_def
        Let_def)

lemma contexts_first_rounds_7:
  "foldl (md5_round contexts_first_block) (0x23a30b24, 0xc834e855, 0x18af5457, 0x6c70dcc2) [56..<64] =
     (0x2593421d, 0xbf8731cf, 0xd2c36eab, 0xe49e1cae)"
  by (simp add: upt_rec contexts_first_block_def md5_round_def md5_K_def md5_s_def rotl32_def
        Let_def)

lemma contexts_first_md5_block:
  "md5_block (0x67452301, 0xefcdab89, 0x98badcfe, 0x10325476) contexts_first_block =
     (0x8cd8651e, 0xaf54dd58, 0x6b7e4ba9, 0xf4d07124)"
  by (simp only: md5_block_def foldl_rounds_chunks
        contexts_first_rounds_0 contexts_first_rounds_1 contexts_first_rounds_2 contexts_first_rounds_3
        contexts_first_rounds_4 contexts_first_rounds_5 contexts_first_rounds_6 contexts_first_rounds_7)
     simp

lemma contexts_first_md5:
  "md5_hex (stringify (JArr contexts_first)) = ''1e65d88c58dd54afa94b7e6b2471d0f4''"
proof -
  have "md5_blocks (0x67452301, 0xefcdab89, 0x98badcfe, 0x10325476) contexts_first_block =
          md5_blocks (md5_block (0x67452301, 0xefcdab89, 0x98badcfe, 0x10325476)
                        contexts_first_block) []"
    by (subst md5_blocks.simps) (simp add: contexts_first_block_def)
  then have blocks: "md5_blocks (0x67452301, 0xefcdab89, 0x98badcfe, 0x10325476) contexts_first_block =
          (0x8cd8651e, 0xaf54dd58, 0x6b7e4ba9, 0xf4d07124)"
    by (simp add: contexts_first_md5_block md5_blocks_Nil)
  show ?thesis
    unfolding md5_hex_def contexts_first_words blocks
    by (simp add: hex_le32_def le_bytes.simps hex_byte_def hex_digit_def)
qed

subsection \<open>The digest and key order\<close>

text \<open>
  The claim C2 as stated, that the digest is independent of object key ordering inside the
  intent definitions, fails: the two lists hold one object each, with the same value under
  every key, and differ only in the order of the two keys; their digests differ.
\<close>

theorem model_hash_key_order_counterexample:
  "name_first = [JObj [(''name'', JStr ''a''), (''contexts'', JArr [])]] \<and>
   contexts_first = [JObj [(''contexts'', JArr []), (''name'', JStr ''a'')]] \<and>
   map_of [(''name'', JStr ''a''), (''contexts'', JArr [])] =
     map_of [(''contexts'', JArr []), (''name'', JStr ''a'')] \<and>
   computeModelHash name_first = ''030fdefcc53c2f1ed146eede8633d6cb'' \<and>
   computeModelHash contexts_first = ''1e65d88c58dd54afa94b7e6b2471d0f4'' \<and>
   computeModelHash name_first \<noteq> computeModelHash contexts_first"
proof -
  have "map_of [(''name'', JStr ''a''), (''contexts'', JArr [])] =
        map_of [(''contexts'', JArr []), (''name'', JStr ''a'')]"
    by (rule ext) simp
  moreover have "computeModelHash name_first = ''030fdefcc53c2f1ed146eede8633d6cb''"
    unfolding computeModelHash_def by (rule name_first_md5)
  moreover have "computeModelHash contexts_first = ''1e65d88c58dd54afa94b7e6b2471d0f4''"
    unfolding computeModelHash_def by (rule contexts_first_md5)
  ultimately show ?thesis
    by (simp add: name_first_def [symmetric] contexts_first_def [symmetric])
qed

text \<open>
  C2, amended: for any fixed list of intent definitions, \<open>computeModelHash\<close> returns the
  same digest on every call, the MD5 digest of the JSON text of the list. The JSON text
  determines the list, the key order of every object included: two lists have the same
  text only when they are equal. So any change to an utterance, slot or context value,
  and any reordering of keys, changes the text that is digested, and equal lists have
  equal digests.
\<close>

theorem model_hash_of_serialisation:
  "computeModelHash intentDefs = md5_hex (stringify (JArr intentDefs)) \<and>
   ((stringify (JArr intentDefs) = stringify (JArr intentDefs')) = (intentDefs = intentDefs')) \<and>
   (intentDefs = intentDefs' \<longrightarrow> computeModelHash intentDefs = computeModelHash intentDefs')"
  by (simp add: computeModelHash_def stringify_inj del: stringify.simps)

text \<open>
  The amended statement at the two lists of the counterexample: they differ in key order
  only, and so do their texts.
\<close>

theorem model_hash_of_serialisation_witness:
  "name_first \<noteq> contexts_first \<and>
   stringify (JArr name_first) \<noteq> stringify (JArr contexts_first) \<and>
   computeModelHash name_first = md5_hex (stringify (JArr name_first))"
proof -
  have "name_first \<noteq> contexts_first"
    by (simp add: name_first_def contexts_first_def)
  with model_hash_of_serialisation [of name_first contexts_first] show ?thesis
    by (simp del: stringify.simps)
qed

end
